theory Spec2Isabelle
  imports Complex_Main
begin

section \<open>Python values, errors and ordered dictionaries\<close>

text \<open>
  Python floats are modelled as the real numbers: rounding, overflow and NaN of IEEE
  arithmetic are outside this development, except where a torch scalar is divided by
  zero (see \<open>tscalar\<close> below). Every \<^verbatim>\<open>raise\<close> of the source is a value
  \<open>Inl e\<close>.
\<close>

datatype py_error =
    NotImplementedError string
  | ZeroDivisionError
  | TypeError
  | KeyError string
  | IndexError
  | ValueError
  | RuntimeError

text \<open>A metric value is a number or \<^verbatim>\<open>None\<close>.\<close>

datatype metric_val = PyNone | PyNum real

text \<open>
  \<^verbatim>\<open>EpochMetrics\<close> is an \<^verbatim>\<open>OrderedDict\<close>: assigning to a key that is present
  keeps its position, a new key goes to the end.
\<close>

type_synonym metrics = "(string \<times> metric_val) list"

fun od_set :: "metrics \<Rightarrow> string \<Rightarrow> metric_val \<Rightarrow> metrics" where
  "od_set [] k v = [(k, v)]"
| "od_set ((k', v') # m) k v = (if k' = k then (k, v) # m else (k', v') # od_set m k v)"

definition od_get :: "metrics \<Rightarrow> string \<Rightarrow> py_error + metric_val" where
  "od_get m k = (case map_of m k of None \<Rightarrow> Inl (KeyError k) | Some v \<Rightarrow> Inr v)"

section \<open>Configuration and the pipeline factory (running.py)\<close>

record config =
  c_task :: string
  c_key_metric :: string
  c_lr :: real
  c_lr_step :: "int list"
  c_lr_factor :: "real list"
  c_epochs :: nat
  c_save_all :: bool
  c_harden :: bool
  c_test_only :: string

datatype dataset_class = ClassiregressionDataset
datatype collate_fn = collate_superv
datatype runner_class = SupervisedRunner

definition pipeline_factory :: "config \<Rightarrow> py_error + (dataset_class \<times> collate_fn \<times> runner_class)" where
  "pipeline_factory config =
     (let task = c_task config in
      if task = ''classification'' \<or> task = ''regression''
      then Inr (ClassiregressionDataset, collate_superv, SupervisedRunner)
      else Inl (NotImplementedError (''Task '' @ [CHR 0x27] @ task @ [CHR 0x27] @ '' not implemented'')))"

section \<open>Validation and best-checkpoint selection (running.py, validate)\<close>

definition NEG_METRICS :: "string set" where
  "NEG_METRICS = {''loss''}"

text \<open>
  Effects visible outside the core: a scalar handed to the metric sink, a checkpoint
  written by \<^verbatim>\<open>utils.save_model\<close> (file tag, epoch, and the learning rates of the
  optimizer's parameter groups when an optimizer is passed), the dump of the per-batch
  predictions, and a difficulty update of a dataset.
\<close>

datatype effect =
    AddScalar string metric_val metric_val
  | SaveModel string metric_val "real list option"
  | SavePredictions
  | DatasetUpdate

text \<open>
  The evaluator object as \<^verbatim>\<open>validate\<close> uses it: its \<^verbatim>\<open>evaluate(epoch, keep_all=True)\<close>,
  \<^verbatim>\<open>len(dataloader)\<close> and \<^verbatim>\<open>len(dataloader.dataset)\<close>.
\<close>

record 'pb evaluator =
  ev_evaluate :: "metric_val \<Rightarrow> py_error + (metrics \<times> 'pb)"
  ev_n_batches :: nat
  ev_n_samples :: nat

text \<open>
  The metric sink \<^verbatim>\<open>tensorboard_writer.add_scalar(tag, value, step)\<close> is a library
  object: it is a parameter that either accepts the scalar or raises.
\<close>

type_synonym writer = "string \<Rightarrow> metric_val \<Rightarrow> metric_val \<Rightarrow> py_error option"

text \<open>
  The logging loop of \<^verbatim>\<open>validate\<close>: each metric goes to the sink and is then formatted
  with \<^verbatim>\<open>'{}: {:8f} | '.format(k, v)\<close>, which raises \<^verbatim>\<open>TypeError\<close> when \<open>v\<close> is
  \<^verbatim>\<open>None\<close>.
\<close>

fun log_metrics :: "writer \<Rightarrow> string \<Rightarrow> metric_val \<Rightarrow> metrics \<Rightarrow> py_error + effect list" where
  "log_metrics w suffix epoch [] = Inr []"
| "log_metrics w suffix epoch ((k, v) # rest) =
     (case w (k @ suffix) v epoch of
        Some e \<Rightarrow> Inl e
      | None \<Rightarrow>
          (case v of
             PyNone \<Rightarrow> Inl TypeError
           | PyNum x \<Rightarrow>
               (case log_metrics w suffix epoch rest of
                  Inl e \<Rightarrow> Inl e
                | Inr es \<Rightarrow> Inr (AddScalar (k @ suffix) v epoch # es))))"

record 'pb validate_out =
  vo_aggr_metrics :: metrics
  vo_best_metrics :: metrics
  vo_best_value :: real
  vo_per_batch :: 'pb
  vo_effects :: "effect list"

definition validate ::
  "'pb evaluator \<Rightarrow> writer \<Rightarrow> config \<Rightarrow> metrics \<Rightarrow> real \<Rightarrow> metric_val \<Rightarrow> py_error + 'pb validate_out" where
  "validate val_evaluator tensorboard_writer config best_metrics best_value epoch =
     (case ev_evaluate val_evaluator epoch of
        Inl e \<Rightarrow> Inl e
      | Inr (aggr_metrics, per_batch) \<Rightarrow>
          if ev_n_batches val_evaluator = 0 then Inl ZeroDivisionError
          else if ev_n_samples val_evaluator = 0 then Inl ZeroDivisionError
          else
            (case log_metrics tensorboard_writer ''/val'' epoch aggr_metrics of
               Inl e \<Rightarrow> Inl e
             | Inr logged \<Rightarrow>
                 (case od_get aggr_metrics (c_key_metric config) of
                    Inl e \<Rightarrow> Inl e
                  | Inr PyNone \<Rightarrow> Inl TypeError
                  | Inr (PyNum v) \<Rightarrow>
                      (let condition =
                             (if c_key_metric config \<in> NEG_METRICS then v < best_value
                              else v > best_value)
                       in if condition
                          then Inr \<lparr>vo_aggr_metrics = aggr_metrics,
                                    vo_best_metrics = aggr_metrics,
                                    vo_best_value = v,
                                    vo_per_batch = per_batch,
                                    vo_effects = logged @ [SaveModel ''best'' epoch None, SavePredictions]\<rparr>
                          else Inr \<lparr>vo_aggr_metrics = aggr_metrics,
                                    vo_best_metrics = best_metrics,
                                    vo_best_value = best_value,
                                    vo_per_batch = per_batch,
                                    vo_effects = logged\<rparr>))))"

definition check_progress :: "nat \<Rightarrow> bool" where
  "check_progress epoch = (epoch \<in> set [100, 140, 160, 220, 280, 340])"

section \<open>Runners (running.py)\<close>

subsection \<open>Division: torch scalars and Python floats\<close>

text \<open>
  In \<^verbatim>\<open>train_epoch\<close> the batch loss is a torch scalar, and dividing it by the integer
  \<^verbatim>\<open>len(loss)\<close> never raises: by zero it gives \<^verbatim>\<open>nan\<close> or an infinity. In
  \<^verbatim>\<open>evaluate\<close> the batch loss has gone through \<^verbatim>\<open>.item()\<close> and is a Python float, and
  so is the epoch loss of both methods: dividing a Python number by zero raises
  \<^verbatim>\<open>ZeroDivisionError\<close>.
\<close>

datatype tscalar = Fin real | PosInf | NegInf | NaN

definition tensor_div :: "real \<Rightarrow> nat \<Rightarrow> tscalar" where
  "tensor_div x n =
     (if n = 0 then (if x = 0 then NaN else if 0 < x then PosInf else NegInf)
      else Fin (x / real n))"

definition float_div :: "real \<Rightarrow> nat \<Rightarrow> py_error + real" where
  "float_div x n = (if n = 0 then Inl ZeroDivisionError else Inr (x / real n))"

subsection \<open>UnsupervisedRunner\<close>

text \<open>
  A batch as the loop body sees it, after the forward pass: \<open>ub_predictions\<close> is the
  model's output on the batch input (the network is a black box), all of shape
  (batch, length, features); \<open>ub_padding_masks\<close> has shape (batch, length). The collate
  function gives the four tensors agreeing shapes.

  The list of batches a runner is given is the trace of one pass over its loader: the
  predictions of a batch are the network's outputs at the moment that batch was
  processed, that is after the optimizer steps of the batches before it. Nothing below
  compares two passes.

  \<open>print_interval\<close> is the logging cadence of the runner: every loop body evaluates
  \<^verbatim>\<open>i % self.print_interval\<close>, which raises \<^verbatim>\<open>ZeroDivisionError\<close> when it is zero.
\<close>

record unsup_batch =
  ub_predictions :: "real list list list"
  ub_targets :: "real list list list"
  ub_target_masks :: "bool list list list"
  ub_padding_masks :: "bool list list"

text \<open>\<^verbatim>\<open>target_masks * padding_masks.unsqueeze(-1)\<close>\<close>

definition cascade_masks :: "bool list list list \<Rightarrow> bool list list \<Rightarrow> bool list list list" where
  "cascade_masks target_masks padding_masks =
     map2 (\<lambda>sample_masks sample_pad. map2 (\<lambda>feat_masks p. map (\<lambda>m. m \<and> p) feat_masks) sample_masks sample_pad)
          target_masks padding_masks"

definition masked_select :: "real list list list \<Rightarrow> bool list list list \<Rightarrow> real list" where
  "masked_select t msk = map fst (filter snd (zip (concat (concat t)) (concat (concat msk))))"

text \<open>
  Modelled from the spec: the loss module of the unsupervised runner (models/loss.py) is
  not among the sources. The call site documents its result as "(num\_active,) individual
  loss (square error per element) for each active value in batch".
\<close>

definition masked_mse_loss :: "real list list list \<Rightarrow> real list list list \<Rightarrow> bool list list list \<Rightarrow> real list" where
  "masked_mse_loss y_pred y_true msk =
     map2 (\<lambda>a b. (a - b)\<^sup>2) (masked_select y_pred msk) (masked_select y_true msk)"

definition unsup_batch_loss :: "unsup_batch \<Rightarrow> real list" where
  "unsup_batch_loss b =
     masked_mse_loss (ub_predictions b) (ub_targets b)
       (cascade_masks (ub_target_masks b) (ub_padding_masks b))"

text \<open>
  The loop of \<^verbatim>\<open>train_epoch\<close>. The accumulator is (\<^verbatim>\<open>epoch_loss\<close>,
  \<^verbatim>\<open>total_active_elements\<close>, the \<^verbatim>\<open>mean_loss\<close> of each batch so far). The mean loss is
  the optimisation objective of the batch; the gradient step changes the network, whose
  later outputs are the predictions of the later batches of the trace. The print interval
  is tested after the step and before the totals are updated.
\<close>

fun unsup_train_batches ::
  "int \<Rightarrow> unsup_batch list \<Rightarrow> real \<times> nat \<times> tscalar list \<Rightarrow> py_error + (real \<times> nat \<times> tscalar list)" where
  "unsup_train_batches print_interval [] acc = Inr acc"
| "unsup_train_batches print_interval (b # bs) (epoch_loss, total_active_elements, means) =
     (let loss = unsup_batch_loss b;
          batch_loss = sum_list loss;
          mean_loss = tensor_div batch_loss (length loss)
      in if print_interval = 0 then Inl ZeroDivisionError
         else unsup_train_batches print_interval bs
                (epoch_loss + batch_loss, total_active_elements + length loss, means @ [mean_loss]))"

definition UnsupervisedRunner_train_epoch ::
  "int \<Rightarrow> metrics \<Rightarrow> unsup_batch list \<Rightarrow> metric_val \<Rightarrow> py_error + (metrics \<times> tscalar list)" where
  "UnsupervisedRunner_train_epoch print_interval epoch_metrics dataloader epoch_num =
     (case unsup_train_batches print_interval dataloader (0, 0, []) of
        Inl e \<Rightarrow> Inl e
      | Inr (epoch_loss, total_active_elements, means) \<Rightarrow>
          (case float_div epoch_loss total_active_elements of
             Inl e \<Rightarrow> Inl e
           | Inr l \<Rightarrow> Inr (od_set (od_set epoch_metrics ''epoch'' epoch_num) ''loss'' (PyNum l), means)))"

text \<open>
  The loop of \<^verbatim>\<open>evaluate\<close>: here \<^verbatim>\<open>mean_loss = batch_loss / len(loss)\<close> divides a
  Python float. One entry of \<^verbatim>\<open>per_batch\<close> holds the combined mask, the targets, the
  predictions and the loss vector of a batch.
\<close>

type_synonym unsup_record = "bool list list list \<times> real list list list \<times> real list list list \<times> real list"

fun unsup_eval_batches ::
  "int \<Rightarrow> unsup_batch list \<Rightarrow> real \<times> nat \<times> unsup_record list
     \<Rightarrow> py_error + (real \<times> nat \<times> unsup_record list)" where
  "unsup_eval_batches print_interval [] acc = Inr acc"
| "unsup_eval_batches print_interval (b # bs) (epoch_loss, total_active_elements, per_batch) =
     (let target_masks = cascade_masks (ub_target_masks b) (ub_padding_masks b);
          loss = masked_mse_loss (ub_predictions b) (ub_targets b) target_masks;
          batch_loss = sum_list loss
      in case float_div batch_loss (length loss) of
           Inl e \<Rightarrow> Inl e
         | Inr mean_loss \<Rightarrow>
             if print_interval = 0 then Inl ZeroDivisionError
             else unsup_eval_batches print_interval bs
                    (epoch_loss + batch_loss, total_active_elements + length loss,
                     per_batch @ [(target_masks, ub_targets b, ub_predictions b, loss)]))"

definition UnsupervisedRunner_evaluate ::
  "int \<Rightarrow> metrics \<Rightarrow> unsup_batch list \<Rightarrow> metric_val \<Rightarrow> bool
     \<Rightarrow> py_error + (metrics \<times> unsup_record list option)" where
  "UnsupervisedRunner_evaluate print_interval epoch_metrics dataloader epoch_num keep_all =
     (case unsup_eval_batches print_interval dataloader (0, 0, []) of
        Inl e \<Rightarrow> Inl e
      | Inr (epoch_loss, total_active_elements, per_batch) \<Rightarrow>
          (case float_div epoch_loss total_active_elements of
             Inl e \<Rightarrow> Inl e
           | Inr l \<Rightarrow>
               Inr (od_set (od_set epoch_metrics ''epoch'' epoch_num) ''loss'' (PyNum l),
                    if keep_all then Some per_batch else None)))"

subsection \<open>SupervisedRunner\<close>

text \<open>
  A supervised batch after the forward pass: the predictions (batch, classes) and the
  targets (batch, 1). The loss module (\<^verbatim>\<open>get_loss_module(config)\<close>), the classification
  analyzer and the scikit-learn curve metrics are not among the sources: they are
  parameters.
\<close>

record sup_batch =
  sb_predictions :: "real list list"
  sb_targets :: "int list list"

type_synonym loss_module = "real list list \<Rightarrow> int list list \<Rightarrow> real list"

record analysis =
  total_accuracy :: real
  prec_avg :: real
  rec_avg :: real
  f1_avg :: real
  precision :: "real list"
  recall :: "real list"
  f1 :: "real list"

record analysis_tools =
  analyze_classification :: "nat list \<Rightarrow> int list \<Rightarrow> nat \<Rightarrow> analysis"
  auroc :: "int list \<Rightarrow> real list \<Rightarrow> real"
  auprc :: "int list \<Rightarrow> real list \<Rightarrow> real"

definition softmax :: "real list \<Rightarrow> real list" where
  "softmax xs = map (\<lambda>x. exp x / sum_list (map exp xs)) xs"

text \<open>
  \<^verbatim>\<open>torch.argmax\<close> / \<^verbatim>\<open>torch.max(..)[1]\<close> along a row: the index of the first maximal
  value; a row of width zero raises \<^verbatim>\<open>IndexError\<close>. \<open>argmax_rows\<close> does so for every
  row of a matrix.
\<close>

fun argmax_aux :: "real list \<Rightarrow> nat \<Rightarrow> nat \<Rightarrow> real \<Rightarrow> nat" where
  "argmax_aux [] i best_i best = best_i"
| "argmax_aux (x # xs) i best_i best =
     (if best < x then argmax_aux xs (Suc i) i x else argmax_aux xs (Suc i) best_i best)"

definition argmax :: "real list \<Rightarrow> py_error + nat" where
  "argmax xs = (case xs of [] \<Rightarrow> Inl IndexError | x # rest \<Rightarrow> Inr (argmax_aux rest 1 0 x))"

fun argmax_rows :: "real list list \<Rightarrow> py_error + nat list" where
  "argmax_rows [] = Inr []"
| "argmax_rows (row # rows) =
     (case argmax row of
        Inl e \<Rightarrow> Inl e
      | Inr k \<Rightarrow> (case argmax_rows rows of Inl e \<Rightarrow> Inl e | Inr ks \<Rightarrow> Inr (k # ks)))"

definition digit_char :: "nat \<Rightarrow> char" where
  "digit_char d = ''0123456789'' ! d"

function str_nat :: "nat \<Rightarrow> string" where
  "str_nat n = (if n < 10 then [digit_char n] else str_nat (n div 10) @ [digit_char (n mod 10)])"
  by pat_completeness auto
termination
  by (relation "measure id") auto

declare str_nat.simps [simp del]

text \<open>The per-class entries \<^verbatim>\<open>m + '-cls-' + str(i + 1)\<close>.\<close>

fun set_per_class :: "metrics \<Rightarrow> string \<Rightarrow> nat \<Rightarrow> real list \<Rightarrow> metrics" where
  "set_per_class em m i [] = em"
| "set_per_class em m i (v # vs) =
     set_per_class (od_set em (m @ ''-cls-'' @ str_nat (i + 1)) (PyNum v)) m (i + 1) vs"

text \<open>The block shared by \<^verbatim>\<open>train_epoch\<close> and \<^verbatim>\<open>evaluate\<close> after the epoch loss is stored.\<close>

definition classification_metrics ::
  "analysis_tools \<Rightarrow> metrics \<Rightarrow> sup_batch list \<Rightarrow> py_error + (metrics \<times> real list list \<times> int list)" where
  "classification_metrics tools epoch_metrics per_batch =
     (let all_predictions = concat (map sb_predictions per_batch);
          probs = map softmax all_predictions
      in case argmax_rows probs of
           Inl e \<Rightarrow> Inl e
         | Inr predictions \<Rightarrow>
     (let targets = concat (concat (map sb_targets per_batch));
          n_classes = (case probs of [] \<Rightarrow> 0 | row # _ \<Rightarrow> length row);
          metrics_dict = analyze_classification tools predictions targets n_classes;
          em1 = od_set epoch_metrics ''accuracy'' (PyNum (total_accuracy metrics_dict));
          em2 = od_set em1 ''precision'' (PyNum (prec_avg metrics_dict));
          em3 = od_set em2 ''recall'' (PyNum (rec_avg metrics_dict));
          em4 = od_set em3 ''f1'' (PyNum (f1_avg metrics_dict));
          em5 = set_per_class em4 ''precision'' 0 (precision metrics_dict);
          em6 = set_per_class em5 ''recall'' 0 (recall metrics_dict);
          em7 = set_per_class em6 ''f1'' 0 (f1 metrics_dict)
      in Inr (em7, probs, targets)))"

fun sup_train_batches ::
  "int \<Rightarrow> loss_module \<Rightarrow> sup_batch list \<Rightarrow> real \<times> nat \<times> tscalar list
     \<Rightarrow> py_error + (real \<times> nat \<times> tscalar list)" where
  "sup_train_batches print_interval loss_module [] acc = Inr acc"
| "sup_train_batches print_interval loss_module (b # bs) (epoch_loss, total_samples, means) =
     (let loss = loss_module (sb_predictions b) (sb_targets b);
          batch_loss = sum_list loss;
          mean_loss = tensor_div batch_loss (length loss)
      in if print_interval = 0 then Inl ZeroDivisionError
         else sup_train_batches print_interval loss_module bs
                (epoch_loss + batch_loss, total_samples + length loss, means @ [mean_loss]))"

definition SupervisedRunner_train_epoch ::
  "int \<Rightarrow> loss_module \<Rightarrow> analysis_tools \<Rightarrow> metrics \<Rightarrow> sup_batch list \<Rightarrow> metric_val
     \<Rightarrow> py_error + (metrics \<times> sup_batch list \<times> tscalar list)" where
  "SupervisedRunner_train_epoch print_interval loss_module tools epoch_metrics dataloader epoch_num =
     (case sup_train_batches print_interval loss_module dataloader (0, 0, []) of
        Inl e \<Rightarrow> Inl e
      | Inr (epoch_loss, total_samples, means) \<Rightarrow>
          (case float_div epoch_loss total_samples of
             Inl e \<Rightarrow> Inl e
           | Inr l \<Rightarrow>
               (let em = od_set (od_set epoch_metrics ''epoch'' epoch_num) ''loss'' (PyNum l)
                in case classification_metrics tools em dataloader of
                     Inl e \<Rightarrow> Inl e
                   | Inr (em7, probs, targets) \<Rightarrow> Inr (em7, dataloader, means))))"

fun sup_eval_batches ::
  "int \<Rightarrow> loss_module \<Rightarrow> sup_batch list \<Rightarrow> real \<times> nat \<Rightarrow> py_error + (real \<times> nat)" where
  "sup_eval_batches print_interval loss_module [] acc = Inr acc"
| "sup_eval_batches print_interval loss_module (b # bs) (epoch_loss, total_samples) =
     (let loss = loss_module (sb_predictions b) (sb_targets b);
          batch_loss = sum_list loss
      in case float_div batch_loss (length loss) of
           Inl e \<Rightarrow> Inl e
         | Inr mean_loss \<Rightarrow>
             if print_interval = 0 then Inl ZeroDivisionError
             else sup_eval_batches print_interval loss_module bs
                    (epoch_loss + batch_loss, total_samples + length loss))"

definition SupervisedRunner_evaluate ::
  "int \<Rightarrow> loss_module \<Rightarrow> analysis_tools \<Rightarrow> nat \<Rightarrow> metrics \<Rightarrow> sup_batch list \<Rightarrow> metric_val \<Rightarrow> bool
     \<Rightarrow> py_error + (metrics \<times> sup_batch list option)" where
  "SupervisedRunner_evaluate print_interval loss_module tools num_classes epoch_metrics dataloader
       epoch_num keep_all =
     (case sup_eval_batches print_interval loss_module dataloader (0, 0) of
        Inl e \<Rightarrow> Inl e
      | Inr (epoch_loss, total_samples) \<Rightarrow>
          (case float_div epoch_loss total_samples of
             Inl e \<Rightarrow> Inl e
           | Inr l \<Rightarrow>
               (let em = od_set (od_set epoch_metrics ''epoch'' epoch_num) ''loss'' (PyNum l)
                in case classification_metrics tools em dataloader of
                     Inl e \<Rightarrow> Inl e
                   | Inr (em7, probs, targets) \<Rightarrow>
                       (let em9 =
                              (if num_classes = 2
                               then od_set (od_set em7 ''AUROC''
                                              (PyNum (auroc tools targets (map (\<lambda>p. p ! 1) probs))))
                                           ''AUPRC'' (PyNum (auprc tools targets (map (\<lambda>p. p ! 1) probs)))
                               else em7)
                        in Inr (em9, if keep_all then Some dataloader else None)))))"

section \<open>Reference aggregations and example inputs\<close>

text \<open>
  The two aggregations of the per-batch loss vectors that the specification compares:
  the count-weighted mean (sum of the batch totals over the sum of the batch counts) and
  the unweighted mean of the per-batch means.
\<close>

definition weighted_mean :: "real list list \<Rightarrow> real" where
  "weighted_mean losses = sum_list (map sum_list losses) / real (sum_list (map length losses))"

definition mean_of_batch_means :: "real list list \<Rightarrow> real" where
  "mean_of_batch_means losses =
     sum_list (map (\<lambda>l. sum_list l / real (length l)) losses) / real (length losses)"

text \<open>A degenerate batch: the combined target and padding mask has no active element.\<close>

definition no_active :: "unsup_batch \<Rightarrow> bool" where
  "no_active b =
     list_all (\<lambda>m. \<not> m) (concat (concat (cascade_masks (ub_target_masks b) (ub_padding_masks b))))"

text \<open>
  Example batches: three active elements with squared error 1 each; one active element
  with squared error 9 (the second position is padding); and a batch whose masks leave
  nothing active.
\<close>

definition ex_batch_a :: unsup_batch where
  "ex_batch_a = \<lparr>ub_predictions = [[[1], [1], [1]]], ub_targets = [[[0], [0], [0]]],
     ub_target_masks = [[[True], [True], [True]]], ub_padding_masks = [[True, True, True]]\<rparr>"

definition ex_batch_b :: unsup_batch where
  "ex_batch_b = \<lparr>ub_predictions = [[[3], [7]]], ub_targets = [[[0], [0]]],
     ub_target_masks = [[[True], [True]]], ub_padding_masks = [[True, False]]\<rparr>"

definition ex_batch_empty :: unsup_batch where
  "ex_batch_empty = \<lparr>ub_predictions = [[[3], [7]]], ub_targets = [[[0], [0]]],
     ub_target_masks = [[[True], [False]]], ub_padding_masks = [[False, True]]\<rparr>"

definition ex_sup_batches :: "sup_batch list" where
  "ex_sup_batches = [\<lparr>sb_predictions = [[1, 0], [1, 0], [1, 0]], sb_targets = [[0], [0], [1]]\<rparr>,
                     \<lparr>sb_predictions = [[9, 0]], sb_targets = [[1]]\<rparr>]"

definition ex_loss_module :: loss_module where
  "ex_loss_module preds targets = map hd preds"

definition ex_tools :: analysis_tools where
  "ex_tools = \<lparr>analyze_classification =
                 (\<lambda>preds targets n. \<lparr>total_accuracy = 1, prec_avg = 1, rec_avg = 1, f1_avg = 1,
                                      precision = [1, 1], recall = [1, 1], f1 = [1, 1]\<rparr>),
               auroc = (\<lambda>targets scores. 1), auprc = (\<lambda>targets scores. 1)\<rparr>"

text \<open>An evaluator whose metrics hold the epoch it is given and a loss of one half.\<close>

definition ex_evaluator :: "unit evaluator" where
  "ex_evaluator = \<lparr>ev_evaluate = (\<lambda>e. Inr ([(''epoch'', e), (''loss'', PyNum (1/2))], ())),
                   ev_n_batches = 1, ev_n_samples = 4\<rparr>"

definition ex_config :: config where
  "ex_config = \<lparr>c_task = ''classification'', c_key_metric = ''loss'', c_lr = 1, c_lr_step = [10, 20],
     c_lr_factor = [1/2, 1/10], c_epochs = 20, c_save_all = False, c_harden = False, c_test_only = ''''\<rparr>"

definition ex_writer :: writer where
  "ex_writer tag v step = None"

section \<open>Training orchestrator (main.py, from the pipeline factory on)\<close>

text \<open>
  The collaborators of \<^verbatim>\<open>main\<close>: \<open>me_trainer epoch\<close> is the result of
  \<^verbatim>\<open>trainer.train_epoch(epoch)\<close> on the network as it is at that epoch, with the lengths
  of the training loader and dataset; the validation evaluator; the metric sink; and the
  number of parameter groups of the optimizer. Loading data, building the network and
  resuming from a checkpoint come before and are outside the model; \<open>start_epoch\<close> is
  a parameter.
\<close>

record 'pb main_env =
  me_trainer :: "nat \<Rightarrow> py_error + metrics"
  me_n_train_batches :: nat
  me_n_train_samples :: nat
  me_val_evaluator :: "'pb evaluator"
  me_writer :: writer
  me_n_param_groups :: nat

text \<open>
  The variables of \<^verbatim>\<open>main\<close> that change in the epoch loop: \<^verbatim>\<open>lr\<close>, the milestone
  pointer \<^verbatim>\<open>lr_step\<close>, the \<^verbatim>\<open>lr\<close> entry of each optimizer parameter group, the best
  metrics and value, the two metric histories, and the effects so far.
\<close>

record main_state =
  ms_lr :: real
  ms_lr_step :: nat
  ms_param_groups :: "real list"
  ms_best_metrics :: metrics
  ms_best_value :: real
  ms_val_metrics :: "metric_val list list"
  ms_train_metrics :: "metric_val list list"
  ms_effects :: "effect list"

text \<open>The block under \<^verbatim>\<open># Learning rate scheduling\<close>.\<close>

definition lr_scheduling :: "config \<Rightarrow> nat \<Rightarrow> main_state \<Rightarrow> py_error + main_state" where
  "lr_scheduling config epoch s =
     (if length (c_lr_step config) \<le> ms_lr_step s then Inl IndexError
      else if int epoch = c_lr_step config ! ms_lr_step s then
        (let saved = SaveModel (str_nat epoch) (PyNum (real epoch)) (Some (ms_param_groups s)) in
         if length (c_lr_factor config) \<le> ms_lr_step s then Inl IndexError
         else
           (let lr = ms_lr s * c_lr_factor config ! ms_lr_step s;
                lr_step = (if int (ms_lr_step s) < int (length (c_lr_step config)) - 1
                           then ms_lr_step s + 1 else ms_lr_step s)
            in Inr (s\<lparr>ms_lr := lr, ms_lr_step := lr_step,
                       ms_param_groups := map (\<lambda>param_group. lr) (ms_param_groups s),
                       ms_effects := ms_effects s @ [saved]\<rparr>)))
      else Inr s)"

text \<open>The block under \<^verbatim>\<open># Difficulty scheduling\<close>: both datasets are updated.\<close>

definition difficulty_scheduling :: "config \<Rightarrow> nat \<Rightarrow> main_state \<Rightarrow> main_state" where
  "difficulty_scheduling config epoch s =
     (if c_harden config \<and> check_progress epoch
      then s\<lparr>ms_effects := ms_effects s @ [DatasetUpdate, DatasetUpdate]\<rparr>
      else s)"

text \<open>
  One iteration of the epoch loop. Unpacking \<^verbatim>\<open>zip(*metrics.items())\<close> raises
  \<^verbatim>\<open>ValueError\<close> on an empty mapping; the average times divide by the lengths of the
  training loader and dataset.
\<close>

definition epoch_body :: "'pb main_env \<Rightarrow> config \<Rightarrow> nat \<Rightarrow> main_state \<Rightarrow> py_error + main_state" where
  "epoch_body env config epoch s =
     (let mark = (if c_save_all config then str_nat epoch else ''last'') in
      case me_trainer env epoch of
        Inl e \<Rightarrow> Inl e
      | Inr aggr_metrics_train \<Rightarrow>
          if aggr_metrics_train = [] then Inl ValueError
          else
            (case log_metrics (me_writer env) ''/train'' (PyNum (real epoch)) aggr_metrics_train of
               Inl e \<Rightarrow> Inl e
             | Inr logged \<Rightarrow>
                 if me_n_train_batches env = 0 then Inl ZeroDivisionError
                 else if me_n_train_samples env = 0 then Inl ZeroDivisionError
                 else
                   (case validate (me_val_evaluator env) (me_writer env) config
                           (ms_best_metrics s) (ms_best_value s) (PyNum (real epoch)) of
                      Inl e \<Rightarrow> Inl e
                    | Inr vo \<Rightarrow>
                        if vo_aggr_metrics vo = [] then Inl ValueError
                        else
                          (let s1 = s\<lparr>ms_train_metrics := ms_train_metrics s @ [map snd aggr_metrics_train],
                                       ms_best_metrics := vo_best_metrics vo,
                                       ms_best_value := vo_best_value vo,
                                       ms_val_metrics := ms_val_metrics s @ [map snd (vo_aggr_metrics vo)],
                                       ms_effects := ms_effects s @ logged @ vo_effects vo
                                          @ [SaveModel mark (PyNum (real epoch)) (Some (ms_param_groups s))]\<rparr>
                           in case lr_scheduling config epoch s1 of
                                Inl e \<Rightarrow> Inl e
                              | Inr s2 \<Rightarrow> Inr (difficulty_scheduling config epoch s2)))))"

fun run_epochs :: "'pb main_env \<Rightarrow> config \<Rightarrow> nat list \<Rightarrow> main_state \<Rightarrow> py_error + main_state" where
  "run_epochs env config [] s = Inr s"
| "run_epochs env config (epoch # rest) s =
     (case epoch_body env config epoch s of
        Inl e \<Rightarrow> Inl e
      | Inr s' \<Rightarrow> run_epochs env config rest s')"

definition initial_state :: "'pb main_env \<Rightarrow> config \<Rightarrow> main_state" where
  "initial_state env config =
     \<lparr>ms_lr = c_lr config, ms_lr_step = 0,
      ms_param_groups = replicate (me_n_param_groups env) (c_lr config),
      ms_best_metrics = [],
      ms_best_value = (if c_key_metric config \<in> NEG_METRICS then 10 ^ 16 else - (10 ^ 16)),
      ms_val_metrics = [], ms_train_metrics = [], ms_effects = []\<rparr>"

text \<open>
  \<^verbatim>\<open>main\<close> from the call of the pipeline factory on. In test-only mode it evaluates
  once (the summary prints 1 for a \<^verbatim>\<open>None\<close> value) and returns \<^verbatim>\<open>None\<close>; otherwise it
  validates at epoch 0, runs the epochs \<^verbatim>\<open>range(start_epoch + 1, epochs + 1)\<close> and returns
  the best value. The exports after the loop are file output only.
\<close>

definition main :: "'pb main_env \<Rightarrow> config \<Rightarrow> nat \<Rightarrow> py_error + (real option \<times> main_state)" where
  "main env config start_epoch =
     (case pipeline_factory config of
        Inl e \<Rightarrow> Inl e
      | Inr (dataset_class, collate_fn, runner_class) \<Rightarrow>
          (let s0 = initial_state env config in
           if c_test_only config = ''testset'' then
             (case pipeline_factory config of
                Inl e \<Rightarrow> Inl e
              | Inr (dataset_class, collate_fn, runner_class) \<Rightarrow>
                  (case ev_evaluate (me_val_evaluator env) PyNone of
                     Inl e \<Rightarrow> Inl e
                   | Inr (aggr_metrics_test, per_batch_test) \<Rightarrow> Inr (None, s0)))
           else
             (case validate (me_val_evaluator env) (me_writer env) config
                     (ms_best_metrics s0) (ms_best_value s0) (PyNum 0) of
                Inl e \<Rightarrow> Inl e
              | Inr vo \<Rightarrow>
                  if vo_aggr_metrics vo = [] then Inl ValueError
                  else
                    (let s1 = s0\<lparr>ms_best_metrics := vo_best_metrics vo,
                                 ms_best_value := vo_best_value vo,
                                 ms_val_metrics := [map snd (vo_aggr_metrics vo)],
                                 ms_effects := vo_effects vo\<rparr>
                     in case run_epochs env config [start_epoch + 1 ..< c_epochs config + 1] s1 of
                          Inl e \<Rightarrow> Inl e
                        | Inr s \<Rightarrow> Inr (Some (ms_best_value s), s)))))"

text \<open>A training collaborator that always succeeds, for the examples.\<close>

definition ex_env :: "unit main_env" where
  "ex_env = \<lparr>me_trainer = (\<lambda>epoch. Inr [(''epoch'', PyNum (real epoch)), (''loss'', PyNum 1)]),
             me_n_train_batches = 2, me_n_train_samples = 8,
             me_val_evaluator = ex_evaluator, me_writer = ex_writer, me_n_param_groups = 2\<rparr>"

text \<open>
  The learning rate after \<open>N\<close> epochs under milestones 10 and 20 with factors 0.5 and
  0.1 from 1.0, and the loop invariant of the schedule: rate, rate of every parameter
  group, milestone pointer, and the two milestone checkpoints with the rates they hold.
\<close>

definition sched_lr :: "nat \<Rightarrow> real" where
  "sched_lr N = (if N < 10 then 1 else if N < 20 then 1/2 else 1/20)"

definition sched_inv :: "nat \<Rightarrow> nat \<Rightarrow> main_state \<Rightarrow> bool" where
  "sched_inv n N s \<longleftrightarrow>
     ms_lr s = sched_lr N \<and> ms_param_groups s = replicate n (sched_lr N)
     \<and> ms_lr_step s = (if N < 10 then 0 else 1)
     \<and> (10 \<le> N \<longrightarrow> SaveModel ''10'' (PyNum 10) (Some (replicate n 1)) \<in> set (ms_effects s))
     \<and> (20 \<le> N \<longrightarrow> SaveModel ''20'' (PyNum 20) (Some (replicate n (1/2))) \<in> set (ms_effects s))"

definition imputation_config :: config where
  "imputation_config = ex_config\<lparr>c_task := ''imputation''\<rparr>"

section \<open>Open-set recognition (running.py, SupervisedRunner)\<close>

text \<open>
  One sample after the forward pass \<^verbatim>\<open>logits, _, latent = self.model(X, padding_masks)\<close>:
  its logits, its intermediate activations (a list of layers, each channels by time) and
  its target label. A batch is a list of samples.
\<close>

record os_sample =
  os_logits :: "real list"
  os_latent :: "real list list list"
  os_target :: int

text \<open>\<^verbatim>\<open>nn.AdaptiveAvgPool1d(1)\<close> on one sample: the mean over time of each channel.\<close>

definition pooled :: "real list list \<Rightarrow> real list" where
  "pooled layer = map (\<lambda>channel. sum_list channel / real (length channel)) layer"

text \<open>
  \<^verbatim>\<open>feature = torch.cat([logits] + [torch.squeeze(pool(layer)) for layer in latent], 1)\<close>.
  \<^verbatim>\<open>torch.squeeze\<close> drops every dimension of size one, so with a latent layer and a
  batch of one sample, or a layer of one channel, the pooled tensor is no longer
  two-dimensional and \<^verbatim>\<open>torch.cat\<close> raises.
\<close>

definition activation_feature :: "os_sample \<Rightarrow> real list" where
  "activation_feature x = os_logits x @ concat (map pooled (os_latent x))"

definition batch_features :: "os_sample list \<Rightarrow> py_error + real list list" where
  "batch_features batch =
     (if list_ex (\<lambda>x. os_latent x \<noteq> []) batch
         \<and> (length batch = 1 \<or> list_ex (\<lambda>x. list_ex (\<lambda>layer. length layer = 1) (os_latent x)) batch)
      then Inl RuntimeError
      else Inr (map activation_feature batch))"

text \<open>
  The body of the batch loop of \<^verbatim>\<open>make_weibull_from_trainsets\<close>: the predicted
  category is \<^verbatim>\<open>torch.max(feature, dim=1)[1]\<close>, the index of the maximum of the whole
  feature row; the rows whose predicted category equals the target are kept, each with
  its predicted category as tag.
\<close>

definition correct_of_batch :: "os_sample list \<Rightarrow> py_error + (real list \<times> nat) list" where
  "correct_of_batch batch =
     (case batch_features batch of
        Inl e \<Rightarrow> Inl e
      | Inr feature \<Rightarrow>
          (case argmax_rows feature of
             Inl e \<Rightarrow> Inl e
           | Inr predicted_category \<Rightarrow>
               Inr (map (\<lambda>(f, tag, x). (f, tag))
                      (filter (\<lambda>(f, tag, x). int tag = os_target x)
                         (zip feature (zip predicted_category batch))))))"

fun collect_batches :: "('b \<Rightarrow> py_error + 'a list) \<Rightarrow> 'b list \<Rightarrow> py_error + 'a list" where
  "collect_batches f [] = Inr []"
| "collect_batches f (batch # rest) =
     (case f batch of
        Inl e \<Rightarrow> Inl e
      | Inr xs \<Rightarrow> (case collect_batches f rest of Inl e \<Rightarrow> Inl e | Inr ys \<Rightarrow> Inr (xs @ ys)))"

text \<open>\<^verbatim>\<open>torch.cat\<close> of the per-batch results raises on an empty list (no batch at all).\<close>

definition correct_features :: "os_sample list list \<Rightarrow> py_error + (real list \<times> nat) list" where
  "correct_features dataloader =
     (case collect_batches correct_of_batch dataloader of
        Inl e \<Rightarrow> Inl e
      | Inr cf \<Rightarrow> if dataloader = [] then Inl RuntimeError else Inr cf)"

text \<open>\<^verbatim>\<open>torch.mean(rows, dim=0)\<close>\<close>

definition mean_rows :: "real list list \<Rightarrow> real list" where
  "mean_rows rows =
     (case rows of
        [] \<Rightarrow> []
      | r # _ \<Rightarrow> map (\<lambda>j. sum_list (map (\<lambda>row. row ! j) rows) / real (length rows)) [0..<length r])"

text \<open>\<^verbatim>\<open>grouped_dict\<close>: for each tag of \<^verbatim>\<open>torch.unique\<close> (ascending), the rows with that tag.\<close>

definition grouped_dict :: "(real list \<times> nat) list \<Rightarrow> (nat \<times> real list list) list" where
  "grouped_dict cf =
     map (\<lambda>group. (group, map fst (filter (\<lambda>(f, tag). tag = group) cf)))
         (remdups (sort (map snd cf)))"

text \<open>
  Modelled from the spec: \<^verbatim>\<open>compute_channel_distances(mav, samples)\<close> of utils/openmax.py,
  which is not among the sources: "for each sample, for each activation channel, a scalar
  distance to the corresponding MAV channel". The distance of two channel values is a
  parameter (the blend of cosine and Euclidean distance is a tunable constant).
\<close>

definition compute_channel_distances :: "(real \<Rightarrow> real \<Rightarrow> real) \<Rightarrow> real list \<Rightarrow> real list list \<Rightarrow> real list list" where
  "compute_channel_distances channel_dist mav samples = map (\<lambda>s. map2 channel_dist mav s) samples"

text \<open>
  The entry of one class in the Weibull model: its mean activation vector, a validity
  flag, and for each channel the fitted (shape, scale, location) triple.
\<close>

record weibull_class =
  wc_mean_vec :: "real list"
  wc_valid :: bool
  wc_channel_fits :: "(real \<times> real \<times> real) list"

text \<open>
  Modelled from the spec: \<^verbatim>\<open>weibull_tailfitting(MAVs, distanceSets, classLabels, tailSize)\<close>
  of utils/openmax.py, which is not among the sources: "per class, per channel, sorts
  distances descending, takes the first tailSize values, fits a 3-parameter Weibull
  distribution to them via maximum likelihood. Fails (reports a fitting error, does not
  crash the caller) if a class has fewer than tailSize correctly-classified samples", and
  "the per-class entry in the model should be flagged invalid". The maximum-likelihood fit
  of one tail is a parameter.
\<close>

definition weibull_tailfitting ::
  "(real list \<Rightarrow> real \<times> real \<times> real) \<Rightarrow> nat \<Rightarrow> real list list \<Rightarrow> real list list list \<Rightarrow> nat list
     \<Rightarrow> (nat \<times> weibull_class) list" where
  "weibull_tailfitting fit tailsize mavs dists labels =
     map (\<lambda>(mav, dist, label).
            (label,
             if length dist < tailsize
             then \<lparr>wc_mean_vec = mav, wc_valid = False, wc_channel_fits = []\<rparr>
             else \<lparr>wc_mean_vec = mav, wc_valid = True,
                   wc_channel_fits =
                     map (\<lambda>c. fit (take tailsize (rev (sort (map (\<lambda>d. d ! c) dist))))) [0..<length mav]\<rparr>))
         (zip mavs (zip dists labels))"

text \<open>
  \<^verbatim>\<open>make_weibull_from_trainsets\<close>. The caller passes no tail size: \<open>tailsize\<close> stands
  for the default of \<^verbatim>\<open>weibull_tailfitting\<close>.
\<close>

definition make_weibull_from_trainsets ::
  "(real \<Rightarrow> real \<Rightarrow> real) \<Rightarrow> (real list \<Rightarrow> real \<times> real \<times> real) \<Rightarrow> nat \<Rightarrow> os_sample list list
     \<Rightarrow> py_error + (nat \<times> weibull_class) list" where
  "make_weibull_from_trainsets channel_dist fit tailsize dataloader =
     (case correct_features dataloader of
        Inl e \<Rightarrow> Inl e
      | Inr cf \<Rightarrow>
          (let groups = grouped_dict cf;
               MAV = map (\<lambda>(key, rows). mean_rows rows) groups;
               dists = map (\<lambda>(key, rows). compute_channel_distances channel_dist (mean_rows rows) rows) groups;
               categories = map fst groups
           in Inr (weibull_tailfitting fit tailsize MAV dists categories)))"

text \<open>
  Modelled from the spec: \<^verbatim>\<open>get_scores\<close> of utils/openmax.py, which is not among the
  sources: "for each sample, ranks the top-alpha known-class logits, computes a
  per-channel revision weight from the Weibull CDF evaluated at that channel's
  distance-to-MAV for the sample, revises those top logits downward proportionally to the
  weight, accumulates the leaked probability mass into an unknown-class pseudo-logit, and
  recomputes a softmax over the (numClasses+1)-length vector. Also returns the unmodified
  softmax over the original numClasses logits". The Weibull weight of a class for an
  activation vector is a parameter \<open>omega\<close>; the rank factor of the \<open>r\<close>-th largest
  logit is \<open>(alpha - r) / alpha\<close>. An activation vector with fewer than \<open>num_classes\<close>
  entries is an index error.
\<close>

text \<open>Modelled from the spec: the indices of the \<open>alpha\<close> largest logits, largest first.\<close>

definition top_alpha :: "nat \<Rightarrow> real list \<Rightarrow> nat list" where
  "top_alpha alpha logits = take alpha (rev (sort_key (\<lambda>i. logits ! i) [0..<length logits]))"

text \<open>Modelled from the spec: the rank of a class among the top logits, if it is one of them.\<close>

fun rank_of :: "nat \<Rightarrow> nat list \<Rightarrow> nat option" where
  "rank_of i [] = None"
| "rank_of i (j # js) = (if i = j then Some 0 else map_option Suc (rank_of i js))"

text \<open>
  Modelled from the spec: each top logit is revised downward in proportion to its Weibull
  weight and rank factor; the other logits are kept.
\<close>

definition revise_logits :: "(nat \<Rightarrow> real list \<Rightarrow> real) \<Rightarrow> nat \<Rightarrow> real list \<Rightarrow> real list \<Rightarrow> real list" where
  "revise_logits omega alpha av logits =
     map (\<lambda>i. case rank_of i (top_alpha alpha logits) of
                 None \<Rightarrow> logits ! i
               | Some r \<Rightarrow> logits ! i * (1 - omega i av * (real (alpha - r) / real alpha)))
         [0..<length logits]"

text \<open>
  Modelled from the spec: the scores of one activation vector. The unknown pseudo-logit is
  the mass taken from the revised logits.
\<close>

definition openmax_sample :: "(nat \<Rightarrow> real list \<Rightarrow> real) \<Rightarrow> nat \<Rightarrow> nat \<Rightarrow> real list \<Rightarrow> py_error + (real list \<times> real list)" where
  "openmax_sample omega alpha num_classes av =
     (if length av < num_classes then Inl IndexError
      else
        (let logits = take num_classes av;
             revised = revise_logits omega alpha av logits;
             unknown = sum_list logits - sum_list revised
         in Inr (softmax (revised @ [unknown]), softmax logits)))"

text \<open>Modelled from the spec: \<^verbatim>\<open>get_scores\<close> scores every activation vector.\<close>

fun get_scores :: "(nat \<Rightarrow> real list \<Rightarrow> real) \<Rightarrow> nat \<Rightarrow> nat \<Rightarrow> real list list \<Rightarrow> py_error + (real list list \<times> real list list)" where
  "get_scores omega alpha num_classes [] = Inr ([], [])"
| "get_scores omega alpha num_classes (av # rest) =
     (case openmax_sample omega alpha num_classes av of
        Inl e \<Rightarrow> Inl e
      | Inr (om, sm) \<Rightarrow>
          (case get_scores omega alpha num_classes rest of
             Inl e \<Rightarrow> Inl e
           | Inr (oms, sms) \<Rightarrow> Inr (om # oms, sm # sms)))"

text \<open>
  \<^verbatim>\<open>SupervisedRunner.openmax\<close>: the features and labels of all batches, then
  \<^verbatim>\<open>num_classes = len(set(labels)) - 1\<close> and the call of \<^verbatim>\<open>get_scores\<close>.
  \<^verbatim>\<open>targets.squeeze()\<close> of a batch of one sample is zero-dimensional, and \<^verbatim>\<open>torch.cat\<close>
  of the labels raises on it, as it does on an empty list.
\<close>

definition openmax ::
  "(nat \<Rightarrow> real list \<Rightarrow> real) \<Rightarrow> nat \<Rightarrow> os_sample list list
     \<Rightarrow> py_error + (real list list \<times> real list list \<times> int list)" where
  "openmax omega alpha dataloader =
     (case collect_batches batch_features dataloader of
        Inl e \<Rightarrow> Inl e
      | Inr input_scores \<Rightarrow>
          if dataloader = [] \<or> list_ex (\<lambda>batch. length batch = 1) dataloader then Inl RuntimeError
          else
            (let labels = concat (map (map os_target) dataloader);
                 num_classes = nat (int (length (remdups labels)) - 1)
             in case get_scores omega alpha num_classes input_scores of
                  Inl e \<Rightarrow> Inl e
                | Inr (openmax_probs, softmax_probs) \<Rightarrow> Inr (openmax_probs, softmax_probs, labels)))"

text \<open>
  What the specification calls correctly classified: the classifier's predicted class,
  the index of the largest logit, equals the true label. \<open>claimed_mav\<close> is the mean
  activation vector of a class over those samples.
\<close>

definition correctly_classified :: "os_sample \<Rightarrow> bool" where
  "correctly_classified x =
     (case argmax (os_logits x) of Inl e \<Rightarrow> False | Inr k \<Rightarrow> int k = os_target x)"

definition claimed_mav :: "os_sample list \<Rightarrow> int \<Rightarrow> real list" where
  "claimed_mav samples k =
     mean_rows (map activation_feature
                    (filter (\<lambda>x. correctly_classified x \<and> os_target x = k) samples))"

text \<open>The number of correctly classified samples of class \<open>k\<close> in a training loader.\<close>

definition n_correct :: "os_sample list list \<Rightarrow> nat \<Rightarrow> nat" where
  "n_correct dataloader k =
     length (filter (\<lambda>x. correctly_classified x \<and> os_target x = int k) (concat dataloader))"

text \<open>
  Two training samples of class 0, both classified correctly by their logits; in the
  first, a pooled activation exceeds every logit.
\<close>

definition ex_sample_a :: os_sample where
  "ex_sample_a = \<lparr>os_logits = [2, 1], os_latent = [[[5, 5], [4, 6]]], os_target = 0\<rparr>"

definition ex_sample_b :: os_sample where
  "ex_sample_b = \<lparr>os_logits = [3, 0], os_latent = [[[1, 1], [0, 2]]], os_target = 0\<rparr>"

definition ex_sample_c :: os_sample where
  "ex_sample_c = \<lparr>os_logits = [0, 4], os_latent = [[[1, 1], [0, 2]]], os_target = 1\<rparr>"

text \<open>
  A misclassified sample of class 1 (its largest logit is at index 0), and a sample of a
  third class.
\<close>

definition ex_sample_m :: os_sample where
  "ex_sample_m = \<lparr>os_logits = [3, 0], os_latent = [[[1, 1], [0, 2]]], os_target = 1\<rparr>"

definition ex_sample_d :: os_sample where
  "ex_sample_d = \<lparr>os_logits = [1, 2], os_latent = [[[1, 1], [0, 2]]], os_target = 2\<rparr>"

definition ex_fit :: "real list \<Rightarrow> real \<times> real \<times> real" where
  "ex_fit tail = (1, 1, 0)"

definition ex_channel_dist :: "real \<Rightarrow> real \<Rightarrow> real" where
  "ex_channel_dist a b = \<bar>a - b\<bar>"

definition ex_omega :: "nat \<Rightarrow> real list \<Rightarrow> real" where
  "ex_omega i av = 1/2"

section \<open>The encoder network (models/PSEncoder.py)\<close>

text \<open>
  The learned parameters: a convolution has a weight of shape (out channels, in channels,
  kernel size) and a bias per out channel; a linear layer has a weight of shape (out
  features, in features) and a bias per out feature. The constructor
  \<^verbatim>\<open>PatternSeriesEncoder(input_size, num_classes)\<close> fixes the shapes.
\<close>

record conv1d =
  conv_weight :: "real list list list"
  conv_bias :: "real list"

record linear =
  lin_weight :: "real list list"
  lin_bias :: "real list"

record encoder =
  enc_conv1 :: conv1d
  enc_conv2 :: conv1d
  enc_fc1 :: linear
  enc_fc2 :: linear

definition conv_shape :: "nat \<Rightarrow> nat \<Rightarrow> conv1d \<Rightarrow> bool" where
  "conv_shape in_channels out_channels c \<longleftrightarrow>
     length (conv_weight c) = out_channels \<and> length (conv_bias c) = out_channels
     \<and> list_all (\<lambda>w. length w = in_channels \<and> list_all (\<lambda>k. length k = 3) w) (conv_weight c)"

definition linear_shape :: "nat \<Rightarrow> nat \<Rightarrow> linear \<Rightarrow> bool" where
  "linear_shape in_features out_features l \<longleftrightarrow>
     length (lin_weight l) = out_features \<and> length (lin_bias l) = out_features
     \<and> list_all (\<lambda>w. length w = in_features) (lin_weight l)"

definition PatternSeriesEncoder_init :: "nat \<Rightarrow> nat \<Rightarrow> encoder \<Rightarrow> bool" where
  "PatternSeriesEncoder_init input_size num_classes enc \<longleftrightarrow>
     conv_shape 1 64 (enc_conv1 enc) \<and> conv_shape 64 128 (enc_conv2 enc)
     \<and> linear_shape (128 * (input_size div 4)) 256 (enc_fc1 enc)
     \<and> linear_shape 256 num_classes (enc_fc2 enc)"

text \<open>
  \<^verbatim>\<open>nn.Conv1d(kernel_size=3, padding=1)\<close> on one sample (channels by time): the input is
  padded with one zero on each side; output channel \<open>o\<close> at time \<open>t\<close> is the bias plus
  the sum over the input channels and the three kernel positions.
\<close>

definition dot :: "real list \<Rightarrow> real list \<Rightarrow> real" where
  "dot w x = sum_list (map2 (*) w x)"

definition conv1d_apply :: "conv1d \<Rightarrow> real list list \<Rightarrow> real list list" where
  "conv1d_apply c x =
     (let padded = map (\<lambda>channel. 0 # channel @ [0]) x;
          len = (case x of [] \<Rightarrow> 0 | channel # _ \<Rightarrow> length channel)
      in map2 (\<lambda>w b. map (\<lambda>t. b + sum_list (map2 (\<lambda>k channel. dot k (take 3 (drop t channel))) w padded))
                          [0..<len])
              (conv_weight c) (conv_bias c))"

definition relu :: "real list \<Rightarrow> real list" where
  "relu xs = map (max 0) xs"

text \<open>\<^verbatim>\<open>nn.MaxPool1d(kernel_size=2)\<close>: the maximum of each pair; an odd last value is dropped.\<close>

fun max_pool1d :: "real list \<Rightarrow> real list" where
  "max_pool1d (a # b # rest) = max a b # max_pool1d rest"
| "max_pool1d rest = []"

text \<open>\<^verbatim>\<open>nn.Linear\<close>: the input must have as many entries as each weight row.\<close>

definition linear_apply :: "linear \<Rightarrow> real list \<Rightarrow> py_error + real list" where
  "linear_apply l x =
     (if list_ex (\<lambda>w. length w \<noteq> length x) (lin_weight l)
         \<or> length (lin_bias l) \<noteq> length (lin_weight l)
      then Inl RuntimeError
      else Inr (map2 (\<lambda>w b. dot w x + b) (lin_weight l) (lin_bias l)))"

text \<open>
  \<^verbatim>\<open>nn.Dropout(0.5)\<close>: the identity in evaluation mode; in training mode each entry is
  zeroed or doubled according to a random keep mask, which is a parameter (\<open>None\<close> in
  evaluation mode).
\<close>

definition dropout :: "bool list option \<Rightarrow> real list \<Rightarrow> real list" where
  "dropout keep xs =
     (case keep of
        None \<Rightarrow> xs
      | Some ks \<Rightarrow> map2 (\<lambda>k x. if k then 2 * x else 0) ks xs)"

definition cnn :: "encoder \<Rightarrow> real list list \<Rightarrow> real list list" where
  "cnn enc x =
     map max_pool1d (map relu (conv1d_apply (enc_conv2 enc)
       (map max_pool1d (map relu (conv1d_apply (enc_conv1 enc) x)))))"

definition fcn :: "encoder \<Rightarrow> bool list option \<Rightarrow> real list \<Rightarrow> py_error + real list" where
  "fcn enc keep x =
     (case linear_apply (enc_fc1 enc) x of
        Inl e \<Rightarrow> Inl e
      | Inr h \<Rightarrow>
          (case linear_apply (enc_fc2 enc) (dropout keep (relu h)) of
             Inl e \<Rightarrow> Inl e
           | Inr z \<Rightarrow> Inr (softmax z)))"

text \<open>
  \<^verbatim>\<open>forward\<close> on one sample: the input is viewed as one channel, passed through the
  convolutions, flattened, and passed through the fully connected layers, the last of
  which is \<^verbatim>\<open>nn.Softmax(dim=1)\<close>. \<open>PatternSeriesEncoder_forward\<close> does so for each row
  of the batch (\<open>keeps\<close> gives the dropout mask of each row).
\<close>

definition forward_sample :: "encoder \<Rightarrow> bool list option \<Rightarrow> real list list \<Rightarrow> py_error + real list" where
  "forward_sample enc keep x = fcn enc keep (concat (cnn enc [concat x]))"

fun PatternSeriesEncoder_forward ::
  "encoder \<Rightarrow> (nat \<Rightarrow> bool list option) \<Rightarrow> nat \<Rightarrow> real list list list \<Rightarrow> py_error + real list list" where
  "PatternSeriesEncoder_forward enc keeps i [] = Inr []"
| "PatternSeriesEncoder_forward enc keeps i (x # rest) =
     (case forward_sample enc (keeps i) x of
        Inl e \<Rightarrow> Inl e
      | Inr row \<Rightarrow>
          (case PatternSeriesEncoder_forward enc keeps (Suc i) rest of
             Inl e \<Rightarrow> Inl e
           | Inr rows \<Rightarrow> Inr (row # rows)))"

text \<open>A small encoder (one channel per convolution, two classes) and an input of length 4.\<close>

definition ex_encoder :: encoder where
  "ex_encoder =
     \<lparr>enc_conv1 = \<lparr>conv_weight = [[[0, 1, 0]]], conv_bias = [0]\<rparr>,
      enc_conv2 = \<lparr>conv_weight = [[[0, 1, 0]]], conv_bias = [0]\<rparr>,
      enc_fc1 = \<lparr>lin_weight = [[1]], lin_bias = [0]\<rparr>,
      enc_fc2 = \<lparr>lin_weight = [[0], [0]], lin_bias = [0, 0]\<rparr>\<rparr>"

section \<open>Verified properties\<close>

subsection \<open>Ordered dictionaries\<close>

lemma map_of_od_set_same: "map_of (od_set m k v) k = Some v"
  by (induction m) auto

lemma map_of_od_set_other: "k' \<noteq> k \<Longrightarrow> map_of (od_set m k' v) k = map_of m k"
  by (induction m) auto

lemma od_get_od_set_same: "od_get (od_set m k v) k = Inr v"
  by (simp add: od_get_def map_of_od_set_same)

lemma od_get_od_set_other: "k' \<noteq> k \<Longrightarrow> od_get (od_set m k' v) k = od_get m k"
  by (simp add: od_get_def map_of_od_set_other)

lemma od_get_set_per_class:
  "(\<And>s. m @ ''-cls-'' @ s \<noteq> k) \<Longrightarrow> od_get (set_per_class em m i vs) k = od_get em k"
  by (induction vs arbitrary: em i) (simp_all add: od_get_od_set_other)

subsection \<open>Best-checkpoint selection\<close>

lemma log_metrics_no_checkpoint:
  "log_metrics w sfx epoch m = Inr es \<Longrightarrow> SaveModel tag e g \<notin> set es"
  by (induction m arbitrary: es) (auto split: option.splits metric_val.splits sum.splits)

lemma log_metrics_None:
  "(k, PyNone) \<in> set m \<Longrightarrow> isl (log_metrics w sfx epoch m)"
  by (induction m) (auto split: option.splits metric_val.splits sum.splits)

lemma validate_None_crashes:
  assumes "PyNone \<in> snd ` set m" and "ev_evaluate ev epoch = Inr (m, pb)"
  shows "isl (validate ev w cfg bm bv epoch)"
proof -
  from assms(1) obtain k where "(k, PyNone) \<in> set m" by auto
  then have "isl (log_metrics w ''/val'' epoch m)" by (rule log_metrics_None)
  then show ?thesis using assms(2)
    by (auto simp: validate_def isl_def)
qed

text \<open>
  C2. Whenever \<open>validate\<close> returns, the key metric has a numeric value \<open>v\<close>; the best
  checkpoint is saved, the best metrics replaced and the best value set to \<open>v\<close> exactly
  when \<open>v\<close> is strictly smaller than the best value (key metric in the lower-is-better
  set, which is exactly \<open>{loss}\<close>) or strictly larger (any other key metric). Otherwise,
  in particular when \<open>v\<close> equals the best value, no best checkpoint is written and the
  returned best metrics and best value are the ones passed in.
\<close>

theorem validate_best_selection:
  assumes "validate ev w cfg bm bv epoch = Inr r"
  shows "NEG_METRICS = {''loss''} \<and>
    (\<exists>v. od_get (vo_aggr_metrics r) (c_key_metric cfg) = Inr (PyNum v) \<and>
      (let improved = (if c_key_metric cfg \<in> NEG_METRICS then v < bv else v > bv) in
         (improved \<longrightarrow> vo_best_value r = v \<and> vo_best_metrics r = vo_aggr_metrics r
             \<and> SaveModel ''best'' epoch None \<in> set (vo_effects r)) \<and>
         (\<not> improved \<longrightarrow> vo_best_value r = bv \<and> vo_best_metrics r = bm
             \<and> (\<forall>e g. SaveModel ''best'' e g \<notin> set (vo_effects r)))))"
  using assms log_metrics_no_checkpoint [of w "''/val''" epoch]
  by (auto simp: validate_def NEG_METRICS_def Let_def
           split: sum.splits prod.splits if_splits metric_val.splits)

lemma ex_evaluator_simps:
  "ev_evaluate ex_evaluator e = Inr ([(''epoch'', e), (''loss'', PyNum (1/2))], ())"
  "ev_n_batches ex_evaluator = 1" "ev_n_samples ex_evaluator = 4"
  by (simp_all add: ex_evaluator_def)

lemma ex_config_key:
  "od_get [(''epoch'', e), (''loss'', PyNum (1/2))] (c_key_metric ex_config) = Inr (PyNum (1/2))"
  "c_key_metric ex_config \<in> NEG_METRICS"
  by (simp_all add: od_get_def ex_config_def NEG_METRICS_def)

theorem validate_best_selection_witness:
  "validate ex_evaluator ex_writer ex_config [] (1/2) (PyNum 3) =
     Inr \<lparr>vo_aggr_metrics = [(''epoch'', PyNum 3), (''loss'', PyNum (1/2))],
          vo_best_metrics = [], vo_best_value = 1/2, vo_per_batch = (),
          vo_effects = [AddScalar ''epoch/val'' (PyNum 3) (PyNum 3),
                        AddScalar ''loss/val'' (PyNum (1/2)) (PyNum 3)]\<rparr>
   \<and> validate ex_evaluator ex_writer ex_config [] 1 (PyNum 3) =
     Inr \<lparr>vo_aggr_metrics = [(''epoch'', PyNum 3), (''loss'', PyNum (1/2))],
          vo_best_metrics = [(''epoch'', PyNum 3), (''loss'', PyNum (1/2))],
          vo_best_value = 1/2, vo_per_batch = (),
          vo_effects = [AddScalar ''epoch/val'' (PyNum 3) (PyNum 3),
                        AddScalar ''loss/val'' (PyNum (1/2)) (PyNum 3),
                        SaveModel ''best'' (PyNum 3) None, SavePredictions]\<rparr>
   \<and> c_key_metric ex_config \<in> NEG_METRICS"
proof -
  have h1: "validate ex_evaluator ex_writer ex_config [] (1/2) (PyNum 3) =
     Inr \<lparr>vo_aggr_metrics = [(''epoch'', PyNum 3), (''loss'', PyNum (1/2))],
          vo_best_metrics = [], vo_best_value = 1/2, vo_per_batch = (),
          vo_effects = [AddScalar ''epoch/val'' (PyNum 3) (PyNum 3),
                        AddScalar ''loss/val'' (PyNum (1/2)) (PyNum 3)]\<rparr>"
    unfolding validate_def ex_evaluator_simps by (simp add: ex_writer_def ex_config_key)
  have h2: "validate ex_evaluator ex_writer ex_config [] 1 (PyNum 3) =
     Inr \<lparr>vo_aggr_metrics = [(''epoch'', PyNum 3), (''loss'', PyNum (1/2))],
          vo_best_metrics = [(''epoch'', PyNum 3), (''loss'', PyNum (1/2))],
          vo_best_value = 1/2, vo_per_batch = (),
          vo_effects = [AddScalar ''epoch/val'' (PyNum 3) (PyNum 3),
                        AddScalar ''loss/val'' (PyNum (1/2)) (PyNum 3),
                        SaveModel ''best'' (PyNum 3) None, SavePredictions]\<rparr>"
    unfolding validate_def ex_evaluator_simps by (simp add: ex_writer_def ex_config_key)
  from validate_best_selection [OF h1] validate_best_selection [OF h2] h1 h2 ex_config_key(2)
  show ?thesis
    apply -
    apply (intro conjI)
      apply assumption+
    done
qed

text \<open>
  C8. A validation pass whose metrics hold \<^verbatim>\<open>None\<close> (here the epoch entry, as
  \<^verbatim>\<open>evaluate(epoch_num=None)\<close> produces it) does not complete: whatever the metric sink
  does, \<open>validate\<close> raises, and with a sink that accepts every value the error is the
  \<^verbatim>\<open>TypeError\<close> of formatting \<^verbatim>\<open>None\<close> with \<^verbatim>\<open>{:8f}\<close>. No comparison is made.
\<close>

theorem validate_None_metric_raises:
  "isl (validate ex_evaluator w ex_config bm bv PyNone)
   \<and> validate ex_evaluator ex_writer ex_config bm bv PyNone = Inl TypeError"
proof
  show "isl (validate ex_evaluator w ex_config bm bv PyNone)"
    by (rule validate_None_crashes [where m = "[(''epoch'', PyNone), (''loss'', PyNum (1/2))]" and pb = "()"])
       (simp_all add: ex_evaluator_simps)
  show "validate ex_evaluator ex_writer ex_config bm bv PyNone = Inl TypeError"
    unfolding validate_def ex_evaluator_simps by (simp add: ex_writer_def)
qed

subsection \<open>Epoch loss of the runners\<close>

lemma float_div_pos: "0 < n \<Longrightarrow> float_div x n = Inr (x / real n)"
  by (simp add: float_div_def)

lemma unsup_train_batches_eq:
  "unsup_train_batches print_interval bs (el, t, ms) =
     (if print_interval = 0 \<and> bs \<noteq> [] then Inl ZeroDivisionError
      else Inr (el + sum_list (map sum_list (map unsup_batch_loss bs)),
                t + sum_list (map length (map unsup_batch_loss bs)),
                ms @ map (\<lambda>b. tensor_div (sum_list (unsup_batch_loss b)) (length (unsup_batch_loss b))) bs))"
  by (induction bs arbitrary: el t ms) (simp_all add: Let_def algebra_simps)

lemma sup_train_batches_eq:
  "sup_train_batches print_interval lm bs (el, t, ms) =
     (if print_interval = 0 \<and> bs \<noteq> [] then Inl ZeroDivisionError
      else Inr (el + sum_list (map sum_list (map (\<lambda>b. lm (sb_predictions b) (sb_targets b)) bs)),
                t + sum_list (map length (map (\<lambda>b. lm (sb_predictions b) (sb_targets b)) bs)),
                ms @ map (\<lambda>b. tensor_div (sum_list (lm (sb_predictions b) (sb_targets b)))
                                         (length (lm (sb_predictions b) (sb_targets b)))) bs))"
  by (induction bs arbitrary: el t ms) (simp_all add: Let_def algebra_simps)

lemma unsup_train_value:
  assumes "UnsupervisedRunner_train_epoch print_interval em0 ubs ep = Inr (em, means)"
  shows "od_get em ''loss'' = Inr (PyNum (weighted_mean (map unsup_batch_loss ubs)))"
  using assms
  by (auto simp: UnsupervisedRunner_train_epoch_def unsup_train_batches_eq float_div_def
        od_get_od_set_same weighted_mean_def split: if_splits)

lemma unsup_train_returns:
  assumes "print_interval \<noteq> 0" and "0 < sum_list (map length (map unsup_batch_loss ubs))"
  shows "\<exists>em means. UnsupervisedRunner_train_epoch print_interval em0 ubs ep = Inr (em, means)"
  using float_div_pos [OF assms(2)] assms(1)
  by (simp add: UnsupervisedRunner_train_epoch_def unsup_train_batches_eq)

lemma classification_metrics_loss:
  "classification_metrics tools em pb = Inr (em7, probs, targets) \<Longrightarrow>
     od_get em7 ''loss'' = od_get em ''loss''"
  by (auto simp: classification_metrics_def Let_def od_get_set_per_class od_get_od_set_other
        split: sum.splits)

lemma argmax_rows_nonempty:
  "list_all (\<lambda>row. row \<noteq> []) rows \<Longrightarrow> \<exists>ks. argmax_rows rows = Inr ks"
proof (induction rows)
  case Nil
  then show ?case by simp
next
  case (Cons row rows)
  then obtain ks where "argmax_rows rows = Inr ks" by auto
  moreover from Cons.prems obtain x rest where "row = x # rest" by (cases row) auto
  ultimately show ?case by (simp add: argmax_def)
qed

lemma classification_metrics_returns:
  assumes "list_all (\<lambda>b. list_all (\<lambda>row. row \<noteq> []) (sb_predictions b)) pb"
  shows "\<exists>r. classification_metrics tools em pb = Inr r"
proof -
  have "list_all (\<lambda>row. row \<noteq> []) (map softmax (concat (map sb_predictions pb)))"
    using assms by (auto simp: list_all_iff softmax_def)
  from argmax_rows_nonempty [OF this] obtain ks where
    "argmax_rows (map softmax (concat (map sb_predictions pb))) = Inr ks" by blast
  then show ?thesis by (simp add: classification_metrics_def Let_def)
qed

lemma sup_train_value:
  assumes "SupervisedRunner_train_epoch print_interval lm tools em0 sbs ep = Inr (em, pb, means)"
  shows "od_get em ''loss'' =
           Inr (PyNum (weighted_mean (map (\<lambda>b. lm (sb_predictions b) (sb_targets b)) sbs)))"
  using assms
  by (auto simp: SupervisedRunner_train_epoch_def sup_train_batches_eq float_div_def Let_def
        od_get_od_set_same weighted_mean_def
        split: if_splits sum.splits dest!: classification_metrics_loss)

lemma sup_train_returns:
  assumes "print_interval \<noteq> 0"
    and "0 < sum_list (map length (map (\<lambda>b. lm (sb_predictions b) (sb_targets b)) sbs))"
    and "list_all (\<lambda>b. list_all (\<lambda>row. row \<noteq> []) (sb_predictions b)) sbs"
  shows "\<exists>em pb means. SupervisedRunner_train_epoch print_interval lm tools em0 sbs ep = Inr (em, pb, means)"
proof -
  let ?l = "sum_list (map sum_list (map (\<lambda>b. lm (sb_predictions b) (sb_targets b)) sbs))
             / real (sum_list (map length (map (\<lambda>b. lm (sb_predictions b) (sb_targets b)) sbs)))"
  from classification_metrics_returns [OF assms(3)] obtain r where
    "classification_metrics tools (od_set (od_set em0 ''epoch'' ep) ''loss'' (PyNum ?l)) sbs = Inr r"
    by blast
  then show ?thesis
    using float_div_pos [OF assms(2)] assms(1)
    by (cases r) (simp add: SupervisedRunner_train_epoch_def sup_train_batches_eq Let_def)
qed

lemma two_batches_differ:
  fixes l1 l2 :: "real list"
  assumes "l1 \<noteq> []" "l2 \<noteq> []" "length l1 \<noteq> length l2"
    and "sum_list l1 / real (length l1) \<noteq> sum_list l2 / real (length l2)"
  shows "weighted_mean [l1, l2] \<noteq> mean_of_batch_means [l1, l2]"
proof -
  define n1 n2 s1 s2 where "n1 = real (length l1)" and "n2 = real (length l2)"
    and "s1 = sum_list l1" and "s2 = sum_list l2"
  have pos: "0 < n1" "0 < n2" using assms(1,2) by (simp_all add: n1_def n2_def)
  have ne: "n1 \<noteq> n2" using assms(3) by (simp add: n1_def n2_def)
  have mne: "s1 * n2 \<noteq> s2 * n1" using assms(4) pos
    by (simp add: n1_def n2_def s1_def s2_def field_simps)
  have "(s1 + s2) / (n1 + n2) \<noteq> (s1 / n1 + s2 / n2) / 2"
  proof
    assume "(s1 + s2) / (n1 + n2) = (s1 / n1 + s2 / n2) / 2"
    then have "2 * n1 * n2 * (s1 + s2) = (n1 + n2) * (s1 * n2 + s2 * n1)"
      using pos by (simp add: field_simps)
    then have "(n2 - n1) * (s1 * n2 - s2 * n1) = 0"
      by (simp add: algebra_simps)
    then show False using ne mne by simp
  qed
  then show ?thesis
    by (simp add: weighted_mean_def mean_of_batch_means_def n1_def n2_def s1_def s2_def)
qed

lemma ex_batch_a_loss: "unsup_batch_loss ex_batch_a = [1, 1, 1]"
  by (simp add: unsup_batch_loss_def ex_batch_a_def masked_mse_loss_def masked_select_def cascade_masks_def)

lemma ex_batch_b_loss: "unsup_batch_loss ex_batch_b = [9]"
  by (simp add: unsup_batch_loss_def ex_batch_b_def masked_mse_loss_def masked_select_def cascade_masks_def)

text \<open>
  C1. Whenever \<open>train_epoch\<close> returns, the \<open>loss\<close> it records is the sum of the batch
  total losses divided by the sum of the batch counts, for the unsupervised and the
  supervised runner; and it does return when the print interval is not zero, the epoch
  has at least one active element (unsupervised) or sample (supervised) and, for the
  supervised runner, no prediction row has width zero. For an epoch of two non-empty
  batches with unequal counts and unequal batch means the recorded loss differs from the
  unweighted mean of the two batch means (with equal batch means the two aggregations
  agree whatever the counts).
\<close>

theorem train_epoch_loss_count_weighted:
  "(UnsupervisedRunner_train_epoch print_interval em0 ubs ep = Inr (em, means) \<longrightarrow>
      od_get em ''loss'' = Inr (PyNum (weighted_mean (map unsup_batch_loss ubs))))
   \<and> (print_interval \<noteq> 0 \<and> 0 < sum_list (map length (map unsup_batch_loss ubs)) \<longrightarrow>
      (\<exists>em means. UnsupervisedRunner_train_epoch print_interval em0 ubs ep = Inr (em, means) \<and>
         od_get em ''loss'' = Inr (PyNum (weighted_mean (map unsup_batch_loss ubs)))))
   \<and> (SupervisedRunner_train_epoch print_interval lm tools em1 sbs ep = Inr (em', pb, means') \<longrightarrow>
      od_get em' ''loss'' =
        Inr (PyNum (weighted_mean (map (\<lambda>b. lm (sb_predictions b) (sb_targets b)) sbs))))
   \<and> (print_interval \<noteq> 0 \<and> 0 < sum_list (map length (map (\<lambda>b. lm (sb_predictions b) (sb_targets b)) sbs))
        \<and> list_all (\<lambda>b. list_all (\<lambda>row. row \<noteq> []) (sb_predictions b)) sbs \<longrightarrow>
      (\<exists>em pb means. SupervisedRunner_train_epoch print_interval lm tools em1 sbs ep = Inr (em, pb, means) \<and>
         od_get em ''loss'' =
           Inr (PyNum (weighted_mean (map (\<lambda>b. lm (sb_predictions b) (sb_targets b)) sbs)))))
   \<and> (map unsup_batch_loss ubs = [l1, l2] \<and> l1 \<noteq> [] \<and> l2 \<noteq> [] \<and> length l1 \<noteq> length l2
        \<and> sum_list l1 / real (length l1) \<noteq> sum_list l2 / real (length l2)
        \<and> UnsupervisedRunner_train_epoch print_interval em0 ubs ep = Inr (em, means) \<longrightarrow>
      (\<exists>x. od_get em ''loss'' = Inr (PyNum x) \<and> x \<noteq> mean_of_batch_means [l1, l2]))
   \<and> (map (\<lambda>b. lm (sb_predictions b) (sb_targets b)) sbs = [k1, k2] \<and> k1 \<noteq> [] \<and> k2 \<noteq> []
        \<and> length k1 \<noteq> length k2
        \<and> sum_list k1 / real (length k1) \<noteq> sum_list k2 / real (length k2)
        \<and> SupervisedRunner_train_epoch print_interval lm tools em1 sbs ep = Inr (em', pb, means') \<longrightarrow>
      (\<exists>x. od_get em' ''loss'' = Inr (PyNum x) \<and> x \<noteq> mean_of_batch_means [k1, k2]))"
proof (intro conjI impI)
  assume "UnsupervisedRunner_train_epoch print_interval em0 ubs ep = Inr (em, means)"
  then show "od_get em ''loss'' = Inr (PyNum (weighted_mean (map unsup_batch_loss ubs)))"
    by (rule unsup_train_value)
next
  assume "print_interval \<noteq> 0 \<and> 0 < sum_list (map length (map unsup_batch_loss ubs))"
  then obtain em means where r: "UnsupervisedRunner_train_epoch print_interval em0 ubs ep = Inr (em, means)"
    using unsup_train_returns [of print_interval ubs em0 ep] by blast
  with unsup_train_value [OF r]
  show "\<exists>em means. UnsupervisedRunner_train_epoch print_interval em0 ubs ep = Inr (em, means) \<and>
         od_get em ''loss'' = Inr (PyNum (weighted_mean (map unsup_batch_loss ubs)))"
    by blast
next
  assume "SupervisedRunner_train_epoch print_interval lm tools em1 sbs ep = Inr (em', pb, means')"
  then show "od_get em' ''loss'' =
        Inr (PyNum (weighted_mean (map (\<lambda>b. lm (sb_predictions b) (sb_targets b)) sbs)))"
    by (rule sup_train_value)
next
  assume "print_interval \<noteq> 0 \<and> 0 < sum_list (map length (map (\<lambda>b. lm (sb_predictions b) (sb_targets b)) sbs))
        \<and> list_all (\<lambda>b. list_all (\<lambda>row. row \<noteq> []) (sb_predictions b)) sbs"
  then obtain em pb means where
    r: "SupervisedRunner_train_epoch print_interval lm tools em1 sbs ep = Inr (em, pb, means)"
    using sup_train_returns [of print_interval lm sbs tools em1 ep] by blast
  with sup_train_value [OF r]
  show "\<exists>em pb means. SupervisedRunner_train_epoch print_interval lm tools em1 sbs ep = Inr (em, pb, means) \<and>
         od_get em ''loss'' =
           Inr (PyNum (weighted_mean (map (\<lambda>b. lm (sb_predictions b) (sb_targets b)) sbs)))"
    by blast
next
  assume a: "map unsup_batch_loss ubs = [l1, l2] \<and> l1 \<noteq> [] \<and> l2 \<noteq> [] \<and> length l1 \<noteq> length l2
        \<and> sum_list l1 / real (length l1) \<noteq> sum_list l2 / real (length l2)
        \<and> UnsupervisedRunner_train_epoch print_interval em0 ubs ep = Inr (em, means)"
  then have "od_get em ''loss'' = Inr (PyNum (weighted_mean [l1, l2]))"
    using unsup_train_value [of print_interval em0 ubs ep em means] by simp
  moreover from a have "weighted_mean [l1, l2] \<noteq> mean_of_batch_means [l1, l2]"
    by (intro two_batches_differ) simp_all
  ultimately show "\<exists>x. od_get em ''loss'' = Inr (PyNum x) \<and> x \<noteq> mean_of_batch_means [l1, l2]"
    by blast
next
  assume a: "map (\<lambda>b. lm (sb_predictions b) (sb_targets b)) sbs = [k1, k2] \<and> k1 \<noteq> [] \<and> k2 \<noteq> []
        \<and> length k1 \<noteq> length k2
        \<and> sum_list k1 / real (length k1) \<noteq> sum_list k2 / real (length k2)
        \<and> SupervisedRunner_train_epoch print_interval lm tools em1 sbs ep = Inr (em', pb, means')"
  then have "od_get em' ''loss'' = Inr (PyNum (weighted_mean [k1, k2]))"
    using sup_train_value [of print_interval lm tools em1 sbs ep em' pb means'] by simp
  moreover from a have "weighted_mean [k1, k2] \<noteq> mean_of_batch_means [k1, k2]"
    by (intro two_batches_differ) simp_all
  ultimately show "\<exists>x. od_get em' ''loss'' = Inr (PyNum x) \<and> x \<noteq> mean_of_batch_means [k1, k2]"
    by blast
qed

lemma ex_unsup_train:
  "UnsupervisedRunner_train_epoch 10 [] [ex_batch_a, ex_batch_b] (PyNum 1) =
     Inr ([(''epoch'', PyNum 1), (''loss'', PyNum 3)], [Fin 1, Fin 9])"
  by (simp add: UnsupervisedRunner_train_epoch_def ex_batch_a_loss ex_batch_b_loss
        tensor_div_def float_div_def Let_def)

lemma ex_sup_losses:
  "map (\<lambda>b. ex_loss_module (sb_predictions b) (sb_targets b)) ex_sup_batches = [[1, 1, 1], [9]]"
  by (simp add: ex_sup_batches_def ex_loss_module_def)

lemma ex_sup_rows:
  "list_all (\<lambda>b. list_all (\<lambda>row. row \<noteq> []) (sb_predictions b)) ex_sup_batches"
  by (simp add: ex_sup_batches_def)

theorem train_epoch_loss_count_weighted_witness:
  "UnsupervisedRunner_train_epoch 10 [] [ex_batch_a, ex_batch_b] (PyNum 1) =
     Inr ([(''epoch'', PyNum 1), (''loss'', PyNum 3)], [Fin 1, Fin 9])
   \<and> od_get [(''epoch'', PyNum 1), (''loss'', PyNum 3)] ''loss'' = Inr (PyNum 3)
   \<and> map unsup_batch_loss [ex_batch_a, ex_batch_b] = [[1, 1, 1], [9]]
   \<and> weighted_mean [[1, 1, 1], [9]] = 3
   \<and> mean_of_batch_means [[1, 1, 1], [9]] = 5
   \<and> map (\<lambda>b. ex_loss_module (sb_predictions b) (sb_targets b)) ex_sup_batches = [[1, 1, 1], [9]]
   \<and> list_all (\<lambda>b. list_all (\<lambda>row. row \<noteq> []) (sb_predictions b)) ex_sup_batches
   \<and> (\<exists>em pb means. SupervisedRunner_train_epoch 10 ex_loss_module ex_tools [] ex_sup_batches (PyNum 1)
                        = Inr (em, pb, means)
          \<and> od_get em ''loss'' = Inr (PyNum 3))"
proof -
  have h1: "map unsup_batch_loss [ex_batch_a, ex_batch_b] = [[1, 1, 1], [9]]"
    by (simp add: ex_batch_a_loss ex_batch_b_loss)
  have w: "weighted_mean [[1, 1, 1], [9]] = 3" by (simp add: weighted_mean_def)
  have m: "mean_of_batch_means [[1, 1, 1], [9]] = 5" by (simp add: mean_of_batch_means_def)
  have g: "od_get [(''epoch'', PyNum 1), (''loss'', PyNum 3)] ''loss'' = Inr (PyNum 3)"
    by (simp add: od_get_def)
  note t = train_epoch_loss_count_weighted
      [of 10 "[]" "[ex_batch_a, ex_batch_b]" "PyNum 1" "[(''epoch'', PyNum 1), (''loss'', PyNum 3)]"
          "[Fin 1, Fin 9]" ex_loss_module ex_tools "[]" ex_sup_batches "[]" "[]" "[]"
          "[1, 1, 1]" "[9]" "[1, 1, 1]" "[9]"]
  have "\<exists>em pb means. SupervisedRunner_train_epoch 10 ex_loss_module ex_tools [] ex_sup_batches (PyNum 1)
                        = Inr (em, pb, means)
          \<and> od_get em ''loss'' = Inr (PyNum 3)"
    using t ex_sup_rows unfolding ex_sup_losses w by simp
  with ex_unsup_train h1 w m g ex_sup_losses ex_sup_rows show ?thesis by blast
qed

subsection \<open>Degenerate batches\<close>

lemma masked_select_no_active:
  "list_all (\<lambda>m. \<not> m) (concat (concat msk)) \<Longrightarrow> masked_select t msk = []"
proof -
  assume a: "list_all (\<lambda>m. \<not> m) (concat (concat msk))"
  have "\<not> snd p" if "p \<in> set (zip (concat (concat t)) (concat (concat msk)))" for p
  proof -
    obtain x m where p: "p = (x, m)" by (cases p) blast
    from that have "snd p \<in> set (concat (concat msk))"
      unfolding p snd_conv by (rule set_zip_rightD)
    with a show ?thesis unfolding list_all_iff by blast
  qed
  then have "filter snd (zip (concat (concat t)) (concat (concat msk))) = []"
    unfolding filter_empty_conv by blast
  then show ?thesis by (simp add: masked_select_def)
qed

lemma no_active_loss: "no_active b \<Longrightarrow> unsup_batch_loss b = []"
  by (simp add: no_active_def unsup_batch_loss_def masked_mse_loss_def masked_select_no_active)

lemma unsup_batch_loss_alt:
  "masked_mse_loss (ub_predictions b) (ub_targets b)
     (cascade_masks (ub_target_masks b) (ub_padding_masks b)) = unsup_batch_loss b"
  by (simp add: unsup_batch_loss_def)

lemma unsup_eval_batches_degenerate:
  "b \<in> set bs \<Longrightarrow> unsup_batch_loss b = [] \<Longrightarrow> unsup_eval_batches print_interval bs acc = Inl ZeroDivisionError"
proof (induction bs arbitrary: acc)
  case Nil
  then show ?case by simp
next
  case (Cons a bs)
  obtain el t pb where acc: "acc = (el, t, pb)" by (cases acc)
  show ?case
  proof (cases "unsup_batch_loss a = []")
    case True
    then show ?thesis by (simp add: acc unsup_batch_loss_alt float_div_def)
  next
    case False
    with Cons.prems have "b \<in> set bs" by auto
    with Cons.IH Cons.prems(2) show ?thesis
      by (simp add: acc unsup_batch_loss_alt float_div_def Let_def)
  qed
qed

lemma unsup_evaluate_degenerate:
  "b \<in> set bs \<Longrightarrow> no_active b \<Longrightarrow>
     UnsupervisedRunner_evaluate print_interval em bs ep keep_all = Inl ZeroDivisionError"
  by (simp add: UnsupervisedRunner_evaluate_def unsup_eval_batches_degenerate no_active_loss)

lemma weighted_mean_skips_empty:
  "weighted_mean (filter (\<lambda>l. l \<noteq> []) ls) = weighted_mean ls"
proof -
  have "sum_list (map sum_list (filter (\<lambda>l. l \<noteq> []) ls)) = sum_list (map sum_list ls)"
    by (induction ls) auto
  moreover have "sum_list (map length (filter (\<lambda>l. l \<noteq> []) ls)) = sum_list (map length ls)"
    by (induction ls) auto
  ultimately show ?thesis by (simp add: weighted_mean_def)
qed

lemma unsup_train_means:
  assumes "UnsupervisedRunner_train_epoch print_interval em bs ep = Inr (em', means)"
  shows "means = map (\<lambda>b. tensor_div (sum_list (unsup_batch_loss b)) (length (unsup_batch_loss b))) bs"
  using assms
  by (auto simp: UnsupervisedRunner_train_epoch_def unsup_train_batches_eq float_div_def
        split: if_splits)

lemma unsup_train_nan:
  assumes "UnsupervisedRunner_train_epoch print_interval em bs ep = Inr (em', means)"
    and "i < length bs" and "no_active (bs ! i)"
  shows "means ! i = NaN"
  using assms(2) no_active_loss [OF assms(3)]
  by (simp add: unsup_train_means [OF assms(1)] tensor_div_def)

lemma unsup_train_raises_iff:
  "UnsupervisedRunner_train_epoch print_interval em bs ep = Inl ZeroDivisionError \<longleftrightarrow>
     (print_interval = 0 \<and> bs \<noteq> []) \<or> sum_list (map length (map unsup_batch_loss bs)) = 0"
  by (simp add: UnsupervisedRunner_train_epoch_def unsup_train_batches_eq float_div_def)

lemma ex_batch_empty_no_active: "no_active ex_batch_empty"
  by (simp add: no_active_def ex_batch_empty_def cascade_masks_def)

text \<open>
  C7 as stated fails: the batch mean of \<open>evaluate\<close> divides by the zero count of a
  degenerate batch.
\<close>

theorem degenerate_batch_counterexample:
  "no_active ex_batch_empty \<and>
   UnsupervisedRunner_evaluate 10 [] [ex_batch_a, ex_batch_empty] (PyNum 1) True = Inl ZeroDivisionError"
  using unsup_evaluate_degenerate [of ex_batch_empty "[ex_batch_a, ex_batch_empty]" 10 "[]" "PyNum 1" True]
  by (simp add: ex_batch_empty_no_active)

text \<open>
  C7, amended. No count is guarded. \<open>evaluate\<close> raises \<^verbatim>\<open>ZeroDivisionError\<close> whenever
  one batch of the pass has no active element. \<open>train_epoch\<close> does not raise at such a
  batch: whenever it returns, the batch mean of a degenerate batch is NaN and the recorded
  epoch loss is the count-weighted mean over the batches of the pass that have an active
  element, the degenerate ones adding nothing to either total. \<open>train_epoch\<close> raises
  \<^verbatim>\<open>ZeroDivisionError\<close> exactly when the pass has no active element at all, or has a
  batch and a print interval of zero.
\<close>

theorem degenerate_batch_unguarded:
  "(no_active b \<and> b \<in> set bs \<longrightarrow>
      UnsupervisedRunner_evaluate print_interval em bs ep keep_all = Inl ZeroDivisionError)
   \<and> (UnsupervisedRunner_train_epoch print_interval em bs ep = Inr (em', means) \<longrightarrow>
        od_get em' ''loss'' =
          Inr (PyNum (weighted_mean (filter (\<lambda>l. l \<noteq> []) (map unsup_batch_loss bs))))
        \<and> (\<forall>i < length bs. no_active (bs ! i) \<longrightarrow> means ! i = NaN))
   \<and> (UnsupervisedRunner_train_epoch print_interval em bs ep = Inl ZeroDivisionError \<longleftrightarrow>
        (print_interval = 0 \<and> bs \<noteq> []) \<or> sum_list (map length (map unsup_batch_loss bs)) = 0)"
proof (intro conjI impI allI)
  assume "no_active b \<and> b \<in> set bs"
  then show "UnsupervisedRunner_evaluate print_interval em bs ep keep_all = Inl ZeroDivisionError"
    using unsup_evaluate_degenerate by blast
next
  assume "UnsupervisedRunner_train_epoch print_interval em bs ep = Inr (em', means)"
  then show "od_get em' ''loss'' =
          Inr (PyNum (weighted_mean (filter (\<lambda>l. l \<noteq> []) (map unsup_batch_loss bs))))"
    unfolding weighted_mean_skips_empty by (rule unsup_train_value)
next
  fix i
  assume "UnsupervisedRunner_train_epoch print_interval em bs ep = Inr (em', means)"
    and "i < length bs" and "no_active (bs ! i)"
  then show "means ! i = NaN" by (rule unsup_train_nan)
next
  show "UnsupervisedRunner_train_epoch print_interval em bs ep = Inl ZeroDivisionError \<longleftrightarrow>
        (print_interval = 0 \<and> bs \<noteq> []) \<or> sum_list (map length (map unsup_batch_loss bs)) = 0"
    by (rule unsup_train_raises_iff)
qed

lemma ex_train_a_empty_b:
  "UnsupervisedRunner_train_epoch 10 [] [ex_batch_a, ex_batch_empty, ex_batch_b] (PyNum 1) =
     Inr ([(''epoch'', PyNum 1), (''loss'', PyNum 3)], [Fin 1, NaN, Fin 9])"
  by (simp add: UnsupervisedRunner_train_epoch_def ex_batch_a_loss ex_batch_b_loss
        no_active_loss [OF ex_batch_empty_no_active] tensor_div_def float_div_def Let_def)

theorem degenerate_batch_unguarded_witness:
  "no_active ex_batch_empty \<and> ex_batch_empty \<in> set [ex_batch_a, ex_batch_empty, ex_batch_b]
   \<and> UnsupervisedRunner_evaluate 10 [] [ex_batch_a, ex_batch_empty, ex_batch_b] (PyNum 1) True
       = Inl ZeroDivisionError
   \<and> UnsupervisedRunner_train_epoch 10 [] [ex_batch_a, ex_batch_empty, ex_batch_b] (PyNum 1) =
       Inr ([(''epoch'', PyNum 1), (''loss'', PyNum 3)], [Fin 1, NaN, Fin 9])
   \<and> od_get [(''epoch'', PyNum 1), (''loss'', PyNum 3)] ''loss'' =
       Inr (PyNum (weighted_mean (filter (\<lambda>l. l \<noteq> [])
                      (map unsup_batch_loss [ex_batch_a, ex_batch_empty, ex_batch_b]))))
   \<and> (1 :: nat) < length [ex_batch_a, ex_batch_empty, ex_batch_b]
   \<and> no_active ([ex_batch_a, ex_batch_empty, ex_batch_b] ! 1)
   \<and> [Fin 1, NaN, Fin 9] ! 1 = NaN
   \<and> UnsupervisedRunner_train_epoch 10 [] [ex_batch_empty] (PyNum 1) = Inl ZeroDivisionError
   \<and> sum_list (map length (map unsup_batch_loss [ex_batch_empty])) = 0
   \<and> UnsupervisedRunner_train_epoch 0 [] [ex_batch_a] (PyNum 1) = Inl ZeroDivisionError"
proof -
  have m: "ex_batch_empty \<in> set [ex_batch_a, ex_batch_empty, ex_batch_b]" by simp
  have z: "sum_list (map length (map unsup_batch_loss [ex_batch_empty])) = 0"
    by (simp add: no_active_loss [OF ex_batch_empty_no_active])
  have n: "no_active ([ex_batch_a, ex_batch_empty, ex_batch_b] ! 1)"
    by (simp add: ex_batch_empty_no_active)
  note a = degenerate_batch_unguarded [of ex_batch_empty "[ex_batch_a, ex_batch_empty, ex_batch_b]" 10 "[]"
          "PyNum 1" True "[(''epoch'', PyNum 1), (''loss'', PyNum 3)]" "[Fin 1, NaN, Fin 9]"]
  note b = degenerate_batch_unguarded [of ex_batch_empty "[ex_batch_empty]" 10 "[]"
          "PyNum 1" True "[]" "[]"]
  note c = degenerate_batch_unguarded [of ex_batch_empty "[ex_batch_a]" 0 "[]"
          "PyNum 1" True "[]" "[]"]
  from a ex_batch_empty_no_active m ex_train_a_empty_b have
    "UnsupervisedRunner_evaluate 10 [] [ex_batch_a, ex_batch_empty, ex_batch_b] (PyNum 1) True
       = Inl ZeroDivisionError"
    "od_get [(''epoch'', PyNum 1), (''loss'', PyNum 3)] ''loss'' =
       Inr (PyNum (weighted_mean (filter (\<lambda>l. l \<noteq> [])
                      (map unsup_batch_loss [ex_batch_a, ex_batch_empty, ex_batch_b]))))"
    by blast+
  moreover from b z have "UnsupervisedRunner_train_epoch 10 [] [ex_batch_empty] (PyNum 1) = Inl ZeroDivisionError"
    by blast
  moreover from c have "UnsupervisedRunner_train_epoch 0 [] [ex_batch_a] (PyNum 1) = Inl ZeroDivisionError"
    by blast
  ultimately show ?thesis using ex_batch_empty_no_active m ex_train_a_empty_b z n by simp
qed

subsection \<open>Learning-rate schedule\<close>

lemma str_nat_10: "str_nat 10 = ''10''"
  by (simp add: str_nat.simps [of 10] str_nat.simps [of 1] str_nat.simps [of "Suc 0"] digit_char_def)

lemma str_nat_20: "str_nat 20 = ''20''"
  by (simp add: str_nat.simps [of 20] str_nat.simps [of 2] digit_char_def)

lemma run_epochs_snoc:
  "run_epochs env config (es @ [e]) s =
     (case run_epochs env config es s of Inl err \<Rightarrow> Inl err | Inr s' \<Rightarrow> epoch_body env config e s')"
  by (induction es arbitrary: s) (auto split: sum.splits)

lemma difficulty_scheduling_fields:
  "ms_lr (difficulty_scheduling config epoch s) = ms_lr s"
  "ms_lr_step (difficulty_scheduling config epoch s) = ms_lr_step s"
  "ms_param_groups (difficulty_scheduling config epoch s) = ms_param_groups s"
  "set (ms_effects s) \<subseteq> set (ms_effects (difficulty_scheduling config epoch s))"
  by (auto simp: difficulty_scheduling_def)

lemma epoch_body_sched:
  assumes train: "\<And>epoch. \<exists>m logged. me_trainer env epoch = Inr m \<and> m \<noteq> [] \<and>
                      log_metrics (me_writer env) ''/train'' (PyNum (real epoch)) m = Inr logged"
    and lens: "0 < me_n_train_batches env" "0 < me_n_train_samples env"
    and val: "\<And>epoch bm bv. \<exists>vo. validate (me_val_evaluator env) (me_writer env) config bm bv
                      (PyNum (real epoch)) = Inr vo \<and> vo_aggr_metrics vo \<noteq> []"
  shows "\<exists>s1. epoch_body env config epoch s =
              (case lr_scheduling config epoch s1 of Inl e \<Rightarrow> Inl e
               | Inr s2 \<Rightarrow> Inr (difficulty_scheduling config epoch s2))
            \<and> ms_lr s1 = ms_lr s \<and> ms_lr_step s1 = ms_lr_step s
            \<and> ms_param_groups s1 = ms_param_groups s
            \<and> set (ms_effects s) \<subseteq> set (ms_effects s1)"
proof -
  from train obtain m logged where t: "me_trainer env epoch = Inr m" "m \<noteq> []"
    "log_metrics (me_writer env) ''/train'' (PyNum (real epoch)) m = Inr logged" by blast
  from val obtain vo where v: "validate (me_val_evaluator env) (me_writer env) config
      (ms_best_metrics s) (ms_best_value s) (PyNum (real epoch)) = Inr vo" "vo_aggr_metrics vo \<noteq> []"
    by blast
  show ?thesis
    unfolding epoch_body_def Let_def using t v lens
    by (intro exI [of _ "s\<lparr>ms_train_metrics := ms_train_metrics s @ [map snd m],
                                       ms_best_metrics := vo_best_metrics vo,
                                       ms_best_value := vo_best_value vo,
                                       ms_val_metrics := ms_val_metrics s @ [map snd (vo_aggr_metrics vo)],
                                       ms_effects := ms_effects s @ logged @ vo_effects vo
                                          @ [SaveModel (if c_save_all config then str_nat epoch else ''last'')
                                               (PyNum (real epoch)) (Some (ms_param_groups s))]\<rparr>"]) auto
qed

lemma lr_scheduling_step:
  assumes cfg: "c_lr_step config = [10, 20]" "c_lr_factor config = [1/2, 1/10]"
    and inv: "sched_inv n N s"
  shows "\<exists>s'. lr_scheduling config (Suc N) s = Inr s' \<and> sched_inv n (Suc N) s'"
proof -
  consider "N < 9" | "N = 9" | "9 < N" "N < 19" | "N = 19" | "19 < N" by linarith
  then show ?thesis
  proof cases
    case 1
    with inv show ?thesis by (simp add: lr_scheduling_def cfg sched_inv_def sched_lr_def)
  next
    case 2
    with inv show ?thesis
      by (simp add: lr_scheduling_def cfg sched_inv_def sched_lr_def Let_def str_nat_10)
  next
    case 3
    with inv show ?thesis by (simp add: lr_scheduling_def cfg sched_inv_def sched_lr_def)
  next
    case 4
    with inv show ?thesis
      by (simp add: lr_scheduling_def cfg sched_inv_def sched_lr_def Let_def str_nat_20)
  next
    case 5
    with inv show ?thesis by (simp add: lr_scheduling_def cfg sched_inv_def sched_lr_def)
  qed
qed

lemma sched_inv_cong:
  "sched_inv n N s \<Longrightarrow> ms_lr s1 = ms_lr s \<Longrightarrow> ms_lr_step s1 = ms_lr_step s \<Longrightarrow>
     ms_param_groups s1 = ms_param_groups s \<Longrightarrow> set (ms_effects s) \<subseteq> set (ms_effects s1) \<Longrightarrow>
     sched_inv n N s1"
  unfolding sched_inv_def by auto

lemma run_epochs_sched:
  assumes cfg: "c_lr_step config = [10, 20]" "c_lr_factor config = [1/2, 1/10]"
    and train: "\<And>epoch. \<exists>m logged. me_trainer env epoch = Inr m \<and> m \<noteq> [] \<and>
                      log_metrics (me_writer env) ''/train'' (PyNum (real epoch)) m = Inr logged"
    and lens: "0 < me_n_train_batches env" "0 < me_n_train_samples env"
    and val: "\<And>epoch bm bv. \<exists>vo. validate (me_val_evaluator env) (me_writer env) config bm bv
                      (PyNum (real epoch)) = Inr vo \<and> vo_aggr_metrics vo \<noteq> []"
    and s0: "sched_inv n 0 s0"
  shows "\<exists>s. run_epochs env config [1 ..< N + 1] s0 = Inr s \<and> sched_inv n N s"
proof (induction N)
  case 0
  then show ?case using s0 by simp
next
  case (Suc N)
  then obtain s where s: "run_epochs env config [1 ..< N + 1] s0 = Inr s" "sched_inv n N s" by blast
  from epoch_body_sched [OF train lens val, of "Suc N" s] obtain s1 where
    s1: "epoch_body env config (Suc N) s =
              (case lr_scheduling config (Suc N) s1 of Inl e \<Rightarrow> Inl e
               | Inr s2 \<Rightarrow> Inr (difficulty_scheduling config (Suc N) s2))"
      "ms_lr s1 = ms_lr s" "ms_lr_step s1 = ms_lr_step s" "ms_param_groups s1 = ms_param_groups s"
      "set (ms_effects s) \<subseteq> set (ms_effects s1)" by blast
  have "sched_inv n N s1" using s(2) s1(2-5) by (rule sched_inv_cong)
  from lr_scheduling_step [OF cfg this] obtain s2 where
    s2: "lr_scheduling config (Suc N) s1 = Inr s2" "sched_inv n (Suc N) s2" by blast
  have inv3: "sched_inv n (Suc N) (difficulty_scheduling config (Suc N) s2)"
    using s2(2) by (rule sched_inv_cong) (simp_all add: difficulty_scheduling_fields)
  have "[1 ..< Suc N + 1] = [1 ..< N + 1] @ [Suc N]" by simp
  then have "run_epochs env config [1 ..< Suc N + 1] s0 = epoch_body env config (Suc N) s"
    using s(1) by (simp only: run_epochs_snoc sum.case)
  with s1(1) s2(1) inv3 show ?case by simp
qed

text \<open>
  C3. With milestones [10, 20], factors [0.5, 0.1] and initial rate 1.0, and
  collaborators that do not fail, \<open>main\<close> returns for every number of epochs (no index
  error at or after the last milestone: the pointer stays below the number of
  milestones); every parameter group has rate 0.5 after 10 to 19 epochs and 0.05 after 20
  or more; the checkpoint tagged 10 is written with the rates still at 1.0 and the one
  tagged 20 with the rates still at 0.5.
\<close>

theorem lr_schedule_milestones:
  assumes cfg: "c_lr_step config = [10, 20]" "c_lr_factor config = [1/2, 1/10]" "c_lr config = 1"
    and task: "c_task config = ''classification'' \<or> c_task config = ''regression''"
    and mode: "c_test_only config \<noteq> ''testset''"
    and train: "\<And>epoch. \<exists>m logged. me_trainer env epoch = Inr m \<and> m \<noteq> [] \<and>
                      log_metrics (me_writer env) ''/train'' (PyNum (real epoch)) m = Inr logged"
    and lens: "0 < me_n_train_batches env" "0 < me_n_train_samples env"
    and val: "\<And>epoch bm bv. \<exists>vo. validate (me_val_evaluator env) (me_writer env) config bm bv
                      (PyNum (real epoch)) = Inr vo \<and> vo_aggr_metrics vo \<noteq> []"
  shows "\<exists>best s. main env config 0 = Inr (Some best, s)
           \<and> ms_param_groups s = replicate (me_n_param_groups env)
                (if c_epochs config < 10 then 1 else if c_epochs config < 20 then 1/2 else 1/20)
           \<and> ms_lr_step s < length (c_lr_step config)
           \<and> (10 \<le> c_epochs config \<longrightarrow>
                SaveModel ''10'' (PyNum 10) (Some (replicate (me_n_param_groups env) 1)) \<in> set (ms_effects s))
           \<and> (20 \<le> c_epochs config \<longrightarrow>
                SaveModel ''20'' (PyNum 20) (Some (replicate (me_n_param_groups env) (1/2))) \<in> set (ms_effects s))"
proof -
  have pf: "pipeline_factory config = Inr (ClassiregressionDataset, collate_superv, SupervisedRunner)"
    using task by (auto simp: pipeline_factory_def)
  define s0 where "s0 = initial_state env config"
  from val [where epoch = 0 and bm = "ms_best_metrics s0" and bv = "ms_best_value s0"] obtain vo where
    vo: "validate (me_val_evaluator env) (me_writer env) config (ms_best_metrics s0) (ms_best_value s0)
           (PyNum 0) = Inr vo" "vo_aggr_metrics vo \<noteq> []" by auto
  define s1 where "s1 = s0\<lparr>ms_best_metrics := vo_best_metrics vo,
                                 ms_best_value := vo_best_value vo,
                                 ms_val_metrics := [map snd (vo_aggr_metrics vo)],
                                 ms_effects := vo_effects vo\<rparr>"
  have "sched_inv (me_n_param_groups env) 0 s1"
    by (simp add: sched_inv_def sched_lr_def s1_def s0_def initial_state_def cfg)
  from run_epochs_sched [OF cfg(1,2) train lens val this, of "c_epochs config"] obtain s where
    s: "run_epochs env config [1 ..< c_epochs config + 1] s1 = Inr s"
       "sched_inv (me_n_param_groups env) (c_epochs config) s" by blast
  have "main env config 0 = Inr (Some (ms_best_value s), s)"
    unfolding main_def pf Let_def using mode vo s(1)
    by (simp add: s0_def [symmetric] s1_def [symmetric])
  moreover have "ms_lr_step s < length (c_lr_step config)"
    using s(2) by (simp add: sched_inv_def cfg)
  ultimately show ?thesis using s(2)
    by (auto simp: sched_inv_def sched_lr_def)
qed

lemma ex_env_train:
  "\<exists>m logged. me_trainer ex_env epoch = Inr m \<and> m \<noteq> [] \<and>
      log_metrics (me_writer ex_env) ''/train'' (PyNum (real epoch)) m = Inr logged"
  by (simp add: ex_env_def ex_writer_def)

lemma ex_env_val:
  "\<exists>vo. validate (me_val_evaluator ex_env) (me_writer ex_env) ex_config bm bv (PyNum (real epoch)) = Inr vo
      \<and> vo_aggr_metrics vo \<noteq> []"
proof -
  have e: "me_val_evaluator ex_env = ex_evaluator" "me_writer ex_env = ex_writer"
    by (simp_all add: ex_env_def)
  show ?thesis
    unfolding e validate_def ex_evaluator_simps
    by (cases "1/2 < bv") (simp_all add: ex_writer_def ex_config_key)
qed

theorem lr_schedule_milestones_witness:
  "map_sum id (ms_param_groups \<circ> snd) (main ex_env ex_config 0) = Inr [1/20, 1/20]
   \<and> map_sum id (\<lambda>r. SaveModel ''10'' (PyNum 10) (Some [1, 1]) \<in> set (ms_effects (snd r))
                     \<and> SaveModel ''20'' (PyNum 20) (Some [1/2, 1/2]) \<in> set (ms_effects (snd r)))
        (main ex_env ex_config 0) = Inr True"
proof -
  have c: "c_lr_step ex_config = [10, 20]" "c_lr_factor ex_config = [1/2, 1/10]" "c_lr ex_config = 1"
    "c_task ex_config = ''classification'' \<or> c_task ex_config = ''regression''"
    "c_test_only ex_config \<noteq> ''testset''" "c_epochs ex_config = 20"
    by (simp_all add: ex_config_def)
  have l: "0 < me_n_train_batches ex_env" "0 < me_n_train_samples ex_env" "me_n_param_groups ex_env = 2"
    by (simp_all add: ex_env_def)
  from lr_schedule_milestones [OF c(1-5) ex_env_train l(1,2) ex_env_val]
  obtain best s where "main ex_env ex_config 0 = Inr (Some best, s)"
    "ms_param_groups s = replicate (me_n_param_groups ex_env)
                (if c_epochs ex_config < 10 then 1 else if c_epochs ex_config < 20 then 1/2 else 1/20)"
    "10 \<le> c_epochs ex_config \<longrightarrow>
                SaveModel ''10'' (PyNum 10) (Some (replicate (me_n_param_groups ex_env) 1)) \<in> set (ms_effects s)"
    "20 \<le> c_epochs ex_config \<longrightarrow>
                SaveModel ''20'' (PyNum 20) (Some (replicate (me_n_param_groups ex_env) (1/2))) \<in> set (ms_effects s)"
    by blast
  then show ?thesis
    by (simp add: c(6) l(3) numeral_2_eq_2)
qed

subsection \<open>Task selection\<close>

text \<open>
  C9. For a task other than classification and regression the pipeline factory raises
  \<^verbatim>\<open>NotImplementedError\<close>, and so does \<open>main\<close> whatever the trainer, the evaluator and
  the metric sink would do: they are not reached. For the two tasks the factory returns
  the supervised dataset class, collate function and runner class.
\<close>

theorem unknown_task_fatal:
  "(c_task config \<noteq> ''classification'' \<and> c_task config \<noteq> ''regression'' \<longrightarrow>
      pipeline_factory config =
        Inl (NotImplementedError (''Task '' @ [CHR 0x27] @ c_task config @ [CHR 0x27] @ '' not implemented''))
      \<and> main env config start_epoch =
        Inl (NotImplementedError (''Task '' @ [CHR 0x27] @ c_task config @ [CHR 0x27] @ '' not implemented'')))
   \<and> (c_task config = ''classification'' \<or> c_task config = ''regression'' \<longrightarrow>
      pipeline_factory config = Inr (ClassiregressionDataset, collate_superv, SupervisedRunner))"
  by (simp add: pipeline_factory_def main_def)

theorem unknown_task_fatal_witness:
  "c_task imputation_config \<noteq> ''classification'' \<and> c_task imputation_config \<noteq> ''regression''
   \<and> main ex_env imputation_config 0 = Inl (NotImplementedError ''Task 'imputation' not implemented'')
   \<and> c_task ex_config = ''classification''
   \<and> pipeline_factory ex_config = Inr (ClassiregressionDataset, collate_superv, SupervisedRunner)"
proof -
  have t: "c_task imputation_config = ''imputation''" "c_task ex_config = ''classification''"
    by (simp_all add: imputation_config_def ex_config_def)
  show ?thesis
    using unknown_task_fatal [of imputation_config ex_env 0] unknown_task_fatal [of ex_config ex_env 0]
    unfolding t by simp
qed

subsection \<open>Mean activation vectors and Weibull fitting\<close>

lemma ex_features_ab:
  "batch_features [ex_sample_a, ex_sample_b] = Inr [[2, 1, 5, 5], [3, 0, 1, 1]]"
  by (simp add: batch_features_def activation_feature_def ex_sample_a_def ex_sample_b_def pooled_def)

lemma ex_correct_ab:
  "correct_features [[ex_sample_a, ex_sample_b]] = Inr [([3, 0, 1, 1], 0)]"
  by (simp add: correct_features_def correct_of_batch_def ex_features_ab argmax_def)
     (simp add: ex_sample_a_def ex_sample_b_def)

lemma ex_grouped_ab: "grouped_dict [([3, 0, 1, 1], 0)] = [(0, [[3, 0, 1, 1]])]"
  by (simp add: grouped_dict_def)

lemma upt_4: "[0..<4] = [0, 1, 2, 3]"
  by (simp add: upt_rec)

lemma ex_mean_rows: "mean_rows [[3, 0, 1, 1]] = [3, 0, 1, 1]"
  by (simp add: mean_rows_def upt_4)

text \<open>
  C4. On a training set of two samples of class 0 that the classifier both classifies
  correctly (the largest logit is at index 0), the first is left out of the class mean
  because a pooled activation is the maximum of its feature row: the mean activation
  vector is that of the second sample alone, not the mean over both.
\<close>

theorem mav_predicted_from_feature_row:
  "correctly_classified ex_sample_a \<and> correctly_classified ex_sample_b
   \<and> map_sum id (map (\<lambda>(k, entry). (k, wc_mean_vec entry)))
        (make_weibull_from_trainsets ex_channel_dist ex_fit 1 [[ex_sample_a, ex_sample_b]])
       = Inr [(0, [3, 0, 1, 1])]
   \<and> claimed_mav [ex_sample_a, ex_sample_b] 0 = [5/2, 1/2, 3, 3]"
proof (intro conjI)
  show "correctly_classified ex_sample_a"
    by (simp add: correctly_classified_def ex_sample_a_def argmax_def)
  show "correctly_classified ex_sample_b"
    by (simp add: correctly_classified_def ex_sample_b_def argmax_def)
  show "map_sum id (map (\<lambda>(k, entry). (k, wc_mean_vec entry)))
        (make_weibull_from_trainsets ex_channel_dist ex_fit 1 [[ex_sample_a, ex_sample_b]])
       = Inr [(0, [3, 0, 1, 1])]"
    by (simp add: make_weibull_from_trainsets_def ex_correct_ab ex_grouped_ab ex_mean_rows
          weibull_tailfitting_def compute_channel_distances_def)
  show "claimed_mav [ex_sample_a, ex_sample_b] 0 = [5/2, 1/2, 3, 3]"
    by (simp add: claimed_mav_def correctly_classified_def argmax_def activation_feature_def
          ex_sample_a_def ex_sample_b_def pooled_def mean_rows_def upt_4)
qed

lemma zip3_map:
  "zip (map f xs) (zip (map g xs) (map h xs)) = map (\<lambda>x. (f x, g x, h x)) xs"
  by (induction xs) auto

lemma make_weibull_eq:
  assumes "correct_features dataloader = Inr cf"
  shows "make_weibull_from_trainsets channel_dist fit tailsize dataloader =
     Inr (map (\<lambda>group.
            (group,
             let rows = map fst (filter (\<lambda>(f, tag). tag = group) cf);
                 dist = compute_channel_distances channel_dist (mean_rows rows) rows
             in if length rows < tailsize
                then \<lparr>wc_mean_vec = mean_rows rows, wc_valid = False, wc_channel_fits = []\<rparr>
                else \<lparr>wc_mean_vec = mean_rows rows, wc_valid = True,
                      wc_channel_fits =
                        map (\<lambda>c. fit (take tailsize (rev (sort (map (\<lambda>d. d ! c) dist)))))
                            [0..<length (mean_rows rows)]\<rparr>))
          (remdups (sort (map snd cf))))"
  by (simp add: make_weibull_from_trainsets_def assms Let_def weibull_tailfitting_def zip3_map
        grouped_dict_def comp_def compute_channel_distances_def)

lemma argmax_rows_spec:
  "argmax_rows fs = Inr ks \<Longrightarrow> list_all2 (\<lambda>f k. argmax f = Inr k) fs ks"
  by (induction fs arbitrary: ks) (auto split: sum.splits)

lemma kept_count_rows:
  "list_all2 (\<lambda>x k. argmax (af x) = Inr k) xs ks \<Longrightarrow>
     length (filter (\<lambda>(f, tag). tag = g)
        (map (\<lambda>(f, tag, x). (f, tag))
           (filter (\<lambda>(f, tag, x). int tag = os_target x) (zip (map af xs) (zip ks xs))))) =
     length (filter (\<lambda>x. argmax (af x) = Inr g \<and> os_target x = int g) xs)"
  by (induction xs ks rule: list_all2_induct) auto

lemma kept_count_batch:
  assumes "correct_of_batch batch = Inr cf"
  shows "length (filter (\<lambda>(f, tag). tag = g) cf) =
     length (filter (\<lambda>x. argmax (activation_feature x) = Inr g \<and> os_target x = int g) batch)"
proof -
  from assms obtain ks where
    f: "batch_features batch = Inr (map activation_feature batch)"
    and k: "argmax_rows (map activation_feature batch) = Inr ks"
    and cf: "cf = map (\<lambda>(f, tag, x). (f, tag))
                    (filter (\<lambda>(f, tag, x). int tag = os_target x)
                       (zip (map activation_feature batch) (zip ks batch)))"
    by (auto simp: correct_of_batch_def batch_features_def split: if_splits sum.splits)
  from argmax_rows_spec [OF k] have "list_all2 (\<lambda>x k. argmax (activation_feature x) = Inr k) batch ks"
    by (simp add: list_all2_map1)
  from kept_count_rows [OF this] show ?thesis unfolding cf .
qed

lemma kept_count_loader:
  "collect_batches correct_of_batch dataloader = Inr cf \<Longrightarrow>
     length (filter (\<lambda>(f, tag). tag = g) cf) =
     length (filter (\<lambda>x. argmax (activation_feature x) = Inr g \<and> os_target x = int g)
               (concat dataloader))"
  by (induction dataloader arbitrary: cf) (auto split: sum.splits simp: kept_count_batch)

lemma correct_count_agrees:
  assumes "list_all (list_all (\<lambda>x. argmax (activation_feature x) = argmax (os_logits x))) dataloader"
  shows "length (filter (\<lambda>x. argmax (activation_feature x) = Inr g \<and> os_target x = int g)
               (concat dataloader)) = n_correct dataloader g"
proof -
  have "argmax (activation_feature x) = argmax (os_logits x)" if "x \<in> set (concat dataloader)" for x
    using assms that by (auto simp: list_all_iff)
  then have "filter (\<lambda>x. argmax (activation_feature x) = Inr g \<and> os_target x = int g) (concat dataloader)
      = filter (\<lambda>x. correctly_classified x \<and> os_target x = int g) (concat dataloader)"
    by (intro filter_cong refl) (auto simp: correctly_classified_def split: sum.splits)
  then show ?thesis by (simp add: n_correct_def)
qed

lemma tag_present_iff:
  "g \<in> set (map snd cf) \<longleftrightarrow> 0 < length (filter (\<lambda>(f, tag). tag = g) cf)"
  by (induction cf) auto

text \<open>
  C6 as stated fails: a class of the training set none of whose samples is classified
  correctly has fewer correct samples than any tail size, and the model holds no entry for
  it at all, flagged or not.
\<close>

theorem underpopulated_class_counterexample:
  "n_correct [[ex_sample_b, ex_sample_m]] 1 = 0
   \<and> os_target ex_sample_m = 1
   \<and> make_weibull_from_trainsets ex_channel_dist ex_fit 20 [[ex_sample_b, ex_sample_m]] =
       Inr [(0, \<lparr>wc_mean_vec = [3, 0, 1, 1], wc_valid = False, wc_channel_fits = []\<rparr>)]"
proof (intro conjI)
  show "n_correct [[ex_sample_b, ex_sample_m]] 1 = 0"
    by (simp add: n_correct_def correctly_classified_def argmax_def ex_sample_b_def ex_sample_m_def)
  show "os_target ex_sample_m = 1" by (simp add: ex_sample_m_def)
  have f: "batch_features [ex_sample_b, ex_sample_m] = Inr [[3, 0, 1, 1], [3, 0, 1, 1]]"
    by (simp add: batch_features_def activation_feature_def ex_sample_b_def ex_sample_m_def pooled_def)
  have c: "correct_features [[ex_sample_b, ex_sample_m]] = Inr [([3, 0, 1, 1], 0)]"
    by (simp add: correct_features_def correct_of_batch_def f argmax_def)
       (simp add: ex_sample_b_def ex_sample_m_def)
  show "make_weibull_from_trainsets ex_channel_dist ex_fit 20 [[ex_sample_b, ex_sample_m]] =
       Inr [(0, \<lparr>wc_mean_vec = [3, 0, 1, 1], wc_valid = False, wc_channel_fits = []\<rparr>)]"
    by (simp add: make_weibull_from_trainsets_def c ex_grouped_ab ex_mean_rows
          weibull_tailfitting_def compute_channel_distances_def)
qed

text \<open>
  C6, amended. \<open>make_weibull_from_trainsets\<close> returns a model whenever the features
  could be collected: fitting never fails the caller. On a training set where the largest
  entry of every feature row is a logit, the model has exactly one entry for each class
  with at least one correctly classified sample and none for the other classes; the entry
  is valid exactly when the class has at least \<open>tailsize\<close> correctly classified samples,
  and an entry that is not valid holds no fitted distribution.
\<close>

theorem underpopulated_class_flagged:
  assumes "correct_features dataloader = Inr cf"
    and "list_all (list_all (\<lambda>x. argmax (activation_feature x) = argmax (os_logits x))) dataloader"
  shows "\<exists>model. make_weibull_from_trainsets channel_dist fit tailsize dataloader = Inr model
           \<and> distinct (map fst model)
           \<and> (\<forall>k. k \<in> fst ` set model \<longleftrightarrow> 0 < n_correct dataloader k)
           \<and> (\<forall>(k, entry) \<in> set model.
                 (wc_valid entry \<longleftrightarrow> tailsize \<le> n_correct dataloader k)
                 \<and> (\<not> wc_valid entry \<longrightarrow> wc_channel_fits entry = []))"
proof -
  from assms(1) have cb: "collect_batches correct_of_batch dataloader = Inr cf"
    by (auto simp: correct_features_def split: sum.splits if_splits)
  have n: "length (filter (\<lambda>(f, tag). tag = g) cf) = n_correct dataloader g" for g
    using kept_count_loader [OF cb] correct_count_agrees [OF assms(2)] by simp
  have keys: "g \<in> set (map snd cf) \<longleftrightarrow> 0 < n_correct dataloader g" for g
    using tag_present_iff [of g cf] n by simp
  show ?thesis
    unfolding make_weibull_eq [OF assms(1)]
    using keys by (auto simp: comp_def Let_def n image_iff)
qed

lemma ex_features_bc:
  "batch_features [ex_sample_b, ex_sample_c] = Inr [[3, 0, 1, 1], [0, 4, 1, 1]]"
  by (simp add: batch_features_def activation_feature_def ex_sample_b_def ex_sample_c_def pooled_def)

lemma ex_correct_bc:
  "correct_features [[ex_sample_b, ex_sample_c]] = Inr [([3, 0, 1, 1], 0), ([0, 4, 1, 1], 1)]"
  by (simp add: correct_features_def correct_of_batch_def ex_features_bc argmax_def)
     (simp add: ex_sample_b_def ex_sample_c_def)

lemma ex_logit_max_bc:
  "list_all (list_all (\<lambda>x. argmax (activation_feature x) = argmax (os_logits x)))
     [[ex_sample_b, ex_sample_c]]"
  by (simp add: activation_feature_def ex_sample_b_def ex_sample_c_def pooled_def argmax_def)

theorem underpopulated_class_flagged_witness:
  "correct_features [[ex_sample_b, ex_sample_c]] = Inr [([3, 0, 1, 1], 0), ([0, 4, 1, 1], 1)]
   \<and> list_all (list_all (\<lambda>x. argmax (activation_feature x) = argmax (os_logits x)))
        [[ex_sample_b, ex_sample_c]]
   \<and> make_weibull_from_trainsets ex_channel_dist ex_fit 20 [[ex_sample_b, ex_sample_c]] =
       Inr [(0, \<lparr>wc_mean_vec = [3, 0, 1, 1], wc_valid = False, wc_channel_fits = []\<rparr>),
            (1, \<lparr>wc_mean_vec = [0, 4, 1, 1], wc_valid = False, wc_channel_fits = []\<rparr>)]
   \<and> n_correct [[ex_sample_b, ex_sample_c]] 0 = 1
   \<and> n_correct [[ex_sample_b, ex_sample_c]] 1 = 1
   \<and> n_correct [[ex_sample_b, ex_sample_c]] 2 = 0"
proof -
  have g: "grouped_dict [([3, 0, 1, 1], 0), ([0, 4, 1, 1], 1)] = [(0, [[3, 0, 1, 1]]), (1, [[0, 4, 1, 1]])]"
    by (simp add: grouped_dict_def)
  have r: "mean_rows [[0, 4, 1, 1]] = [0, 4, 1, 1]" by (simp add: mean_rows_def upt_4)
  have m: "make_weibull_from_trainsets ex_channel_dist ex_fit 20 [[ex_sample_b, ex_sample_c]] =
       Inr [(0, \<lparr>wc_mean_vec = [3, 0, 1, 1], wc_valid = False, wc_channel_fits = []\<rparr>),
            (1, \<lparr>wc_mean_vec = [0, 4, 1, 1], wc_valid = False, wc_channel_fits = []\<rparr>)]"
    by (simp add: make_weibull_from_trainsets_def ex_correct_bc g [simplified] ex_mean_rows r
          weibull_tailfitting_def compute_channel_distances_def)
  have c: "n_correct [[ex_sample_b, ex_sample_c]] 0 = 1" "n_correct [[ex_sample_b, ex_sample_c]] 1 = 1"
    "n_correct [[ex_sample_b, ex_sample_c]] 2 = 0"
    by (simp_all add: n_correct_def correctly_classified_def argmax_def ex_sample_b_def ex_sample_c_def)
  from underpopulated_class_flagged [OF ex_correct_bc ex_logit_max_bc, of ex_channel_dist ex_fit 20]
    m c ex_correct_bc ex_logit_max_bc
  show ?thesis by blast
qed

subsection \<open>Softmax and OpenMax probabilities\<close>

lemma sum_list_divide: "sum_list (map (\<lambda>x. f x / c) xs) = sum_list (map f xs) / (c :: real)"
  by (induction xs) (simp_all add: add_divide_distrib)

lemma sum_list_exp_pos: "xs \<noteq> [] \<Longrightarrow> 0 < sum_list (map exp (xs :: real list))"
proof (induction xs)
  case Nil
  then show ?case by simp
next
  case (Cons x xs)
  have "0 \<le> sum_list (map exp xs)" by (rule sum_list_nonneg) auto
  moreover have "0 < exp x" by simp
  ultimately have "0 < exp x + sum_list (map exp xs)" by (rule add_pos_nonneg [rotated])
  then show ?case by simp
qed

lemma softmax_length: "length (softmax xs) = length xs"
  by (simp add: softmax_def)

lemma softmax_sum: "xs \<noteq> [] \<Longrightarrow> sum_list (softmax xs) = 1"
  using sum_list_exp_pos [of xs] by (simp add: softmax_def sum_list_divide)

lemma softmax_nonneg: "p \<in> set (softmax xs) \<Longrightarrow> 0 \<le> p"
proof -
  assume "p \<in> set (softmax xs)"
  then obtain x where "x \<in> set xs" and p: "p = exp x / sum_list (map exp xs)"
    by (auto simp: softmax_def)
  then have "xs \<noteq> []" by auto
  then have "0 < sum_list (map exp xs)" by (rule sum_list_exp_pos)
  then show ?thesis by (simp add: p)
qed

lemma revise_logits_length: "length (revise_logits omega alpha av logits) = length logits"
  by (simp add: revise_logits_def)

lemma openmax_sample_props:
  assumes "openmax_sample omega alpha n av = Inr (om, sm)"
  shows "length om = n + 1 \<and> sum_list om = 1 \<and> (\<forall>q \<in> set om. 0 \<le> q)
         \<and> length sm = n \<and> (0 < n \<longrightarrow> sum_list sm = 1) \<and> (\<forall>q \<in> set sm. 0 \<le> q)"
proof -
  from assms have len: "n \<le> length av"
    and om: "om = softmax (revise_logits omega alpha av (take n av)
                  @ [sum_list (take n av) - sum_list (revise_logits omega alpha av (take n av))])"
    and sm: "sm = softmax (take n av)"
    by (auto simp: openmax_sample_def Let_def split: if_splits)
  have "length om = n + 1" using len by (simp add: om softmax_length revise_logits_length)
  moreover have "sum_list om = 1" unfolding om by (rule softmax_sum) simp
  moreover have "\<forall>q \<in> set om. 0 \<le> q" unfolding om using softmax_nonneg by blast
  moreover have "length sm = n" using len by (simp add: sm softmax_length)
  moreover have "0 < n \<longrightarrow> sum_list sm = 1"
  proof
    assume "0 < n"
    with len have "take n av \<noteq> []" by auto
    then show "sum_list sm = 1" unfolding sm by (rule softmax_sum)
  qed
  moreover have "\<forall>q \<in> set sm. 0 \<le> q" unfolding sm using softmax_nonneg by blast
  ultimately show ?thesis by blast
qed

lemma get_scores_props:
  "get_scores omega alpha n avs = Inr (oms, sms) \<Longrightarrow>
     length oms = length avs \<and> length sms = length avs
     \<and> (\<forall>om \<in> set oms. length om = n + 1 \<and> sum_list om = 1 \<and> (\<forall>q \<in> set om. 0 \<le> q))
     \<and> (\<forall>sm \<in> set sms. length sm = n \<and> (0 < n \<longrightarrow> sum_list sm = 1) \<and> (\<forall>q \<in> set sm. 0 \<le> q))"
proof (induction avs arbitrary: oms sms)
  case Nil
  then show ?case by simp
next
  case (Cons av avs)
  from Cons.prems obtain om sm oms' sms' where
    s: "openmax_sample omega alpha n av = Inr (om, sm)"
    and r: "get_scores omega alpha n avs = Inr (oms', sms')"
    and e: "oms = om # oms'" "sms = sm # sms'"
    by (auto split: sum.splits prod.splits)
  from openmax_sample_props [OF s] Cons.IH [OF r] show ?case
    unfolding e by simp
qed

lemma batch_features_length: "batch_features batch = Inr fs \<Longrightarrow> length fs = length batch"
  by (auto simp: batch_features_def split: if_splits)

lemma collect_features_length:
  "collect_batches batch_features dataloader = Inr fs \<Longrightarrow> length fs = length (concat dataloader)"
  by (induction dataloader arbitrary: fs)
     (auto split: sum.splits dest: batch_features_length)

text \<open>
  C5 as stated fails for a loader whose samples all carry one label: then
  \<open>len(set(labels)) - 1\<close> is zero, and the softmax vector of every sample is empty
  and sums to 0.
\<close>

theorem openmax_single_label_counterexample:
  "map_sum id (\<lambda>r. (fst (snd r), snd (snd r))) (openmax ex_omega 1 [[ex_sample_a, ex_sample_b]])
     = Inr ([[], []], [0, 0])
   \<and> sum_list ([] :: real list) \<noteq> 1"
  by (simp add: openmax_def ex_features_ab openmax_sample_def Let_def softmax_def)
     (simp add: ex_sample_a_def ex_sample_b_def)

text \<open>
  C5, amended. Whenever \<open>openmax\<close> returns, it returns one OpenMax vector and one
  softmax vector per sample, with \<open>num_classes = len(set(labels)) - 1\<close>; every OpenMax
  vector has \<open>num_classes + 1\<close> entries, is non-negative and sums to 1; every softmax
  vector has \<open>num_classes\<close> entries and is non-negative, and it sums to 1 when the
  labels have at least two distinct values, while for a single distinct label it is
  empty.
\<close>

theorem openmax_probabilities:
  assumes "openmax omega alpha dataloader = Inr (openmax_probs, softmax_probs, labels)"
  shows "length openmax_probs = length labels \<and> length softmax_probs = length labels
     \<and> (\<forall>p \<in> set openmax_probs.
           length p = length (remdups labels) - 1 + 1 \<and> sum_list p = 1 \<and> (\<forall>q \<in> set p. 0 \<le> q))
     \<and> (\<forall>p \<in> set softmax_probs.
           length p = length (remdups labels) - 1 \<and> (\<forall>q \<in> set p. 0 \<le> q)
           \<and> (if 2 \<le> length (remdups labels) then sum_list p = 1 else p = []))"
proof -
  from assms(1) obtain input_scores where
    f: "collect_batches batch_features dataloader = Inr input_scores"
    and l: "labels = concat (map (map os_target) dataloader)"
    and g: "get_scores omega alpha (nat (int (length (remdups labels)) - 1)) input_scores
              = Inr (openmax_probs, softmax_probs)"
    by (auto simp: openmax_def Let_def split: sum.splits if_splits prod.splits)
  have n: "nat (int (length (remdups labels)) - 1) = length (remdups labels) - 1" by simp
  have pos: "0 < length (remdups labels) - 1 \<longleftrightarrow> 2 \<le> length (remdups labels)" by auto
  have len: "length input_scores = length labels"
    using collect_features_length [OF f] by (simp add: l length_concat comp_def)
  from get_scores_props [OF g [unfolded n]] have
    p1: "length openmax_probs = length input_scores" "length softmax_probs = length input_scores"
    and p2: "\<forall>om \<in> set openmax_probs. length om = length (remdups labels) - 1 + 1 \<and> sum_list om = 1
                \<and> (\<forall>q \<in> set om. 0 \<le> q)"
    and p3: "\<forall>sm \<in> set softmax_probs. length sm = length (remdups labels) - 1
                \<and> (0 < length (remdups labels) - 1 \<longrightarrow> sum_list sm = 1) \<and> (\<forall>q \<in> set sm. 0 \<le> q)"
    by blast+
  have "\<forall>p \<in> set softmax_probs.
           length p = length (remdups labels) - 1 \<and> (\<forall>q \<in> set p. 0 \<le> q)
           \<and> (if 2 \<le> length (remdups labels) then sum_list p = 1 else p = [])"
  proof
    fix p assume "p \<in> set softmax_probs"
    with p3 have a: "length p = length (remdups labels) - 1"
      "0 < length (remdups labels) - 1 \<longrightarrow> sum_list p = 1" "\<forall>q \<in> set p. 0 \<le> q" by blast+
    show "length p = length (remdups labels) - 1 \<and> (\<forall>q \<in> set p. 0 \<le> q)
           \<and> (if 2 \<le> length (remdups labels) then sum_list p = 1 else p = [])"
    proof (cases "2 \<le> length (remdups labels)")
      case True
      with a pos show ?thesis by simp
    next
      case False
      then have "length p = 0" using a(1) by simp
      with a False show ?thesis by simp
    qed
  qed
  with p1 p2 len show ?thesis by simp
qed

lemma ex_features_bcd:
  "batch_features [ex_sample_b, ex_sample_c, ex_sample_d] =
     Inr [[3, 0, 1, 1], [0, 4, 1, 1], [1, 2, 1, 1]]"
  by (simp add: batch_features_def activation_feature_def ex_sample_b_def ex_sample_c_def
        ex_sample_d_def pooled_def)

theorem openmax_probabilities_witness:
  "(\<exists>om sm. openmax ex_omega 1 [[ex_sample_b, ex_sample_c, ex_sample_d]] = Inr (om, sm, [0, 1, 2])
      \<and> length om = 3 \<and> length sm = 3
      \<and> list_all (\<lambda>p. length p = 3 \<and> sum_list p = 1 \<and> list_all (\<lambda>q. 0 \<le> q) p) om
      \<and> list_all (\<lambda>p. length p = 2 \<and> sum_list p = 1 \<and> list_all (\<lambda>q. 0 \<le> q) p) sm)
   \<and> (\<exists>om sm. openmax ex_omega 1 [[ex_sample_a, ex_sample_b]] = Inr (om, sm, [0, 0])
      \<and> list_all (\<lambda>p. length p = 1 \<and> sum_list p = 1 \<and> list_all (\<lambda>q. 0 \<le> q) p) om
      \<and> list_all (\<lambda>p. p = []) sm)"
proof
  have "\<exists>om sm. openmax ex_omega 1 [[ex_sample_b, ex_sample_c, ex_sample_d]] = Inr (om, sm, [0, 1, 2])"
    by (simp add: openmax_def ex_features_bcd openmax_sample_def Let_def)
       (simp add: ex_sample_b_def ex_sample_c_def ex_sample_d_def)
  then obtain om sm where
    h: "openmax ex_omega 1 [[ex_sample_b, ex_sample_c, ex_sample_d]] = Inr (om, sm, [0, 1, 2])"
    by blast
  from openmax_probabilities [OF h] h
  show "\<exists>om sm. openmax ex_omega 1 [[ex_sample_b, ex_sample_c, ex_sample_d]] = Inr (om, sm, [0, 1, 2])
      \<and> length om = 3 \<and> length sm = 3
      \<and> list_all (\<lambda>p. length p = 3 \<and> sum_list p = 1 \<and> list_all (\<lambda>q. 0 \<le> q) p) om
      \<and> list_all (\<lambda>p. length p = 2 \<and> sum_list p = 1 \<and> list_all (\<lambda>q. 0 \<le> q) p) sm"
    by (auto simp: list_all_iff)
next
  have "\<exists>om sm. openmax ex_omega 1 [[ex_sample_a, ex_sample_b]] = Inr (om, sm, [0, 0])"
    by (simp add: openmax_def ex_features_ab openmax_sample_def Let_def)
       (simp add: ex_sample_a_def ex_sample_b_def)
  then obtain om sm where h: "openmax ex_omega 1 [[ex_sample_a, ex_sample_b]] = Inr (om, sm, [0, 0])"
    by blast
  from openmax_probabilities [OF h] h
  show "\<exists>om sm. openmax ex_omega 1 [[ex_sample_a, ex_sample_b]] = Inr (om, sm, [0, 0])
      \<and> list_all (\<lambda>p. length p = 1 \<and> sum_list p = 1 \<and> list_all (\<lambda>q. 0 \<le> q) p) om
      \<and> list_all (\<lambda>p. p = []) sm"
    by (auto simp: list_all_iff)
qed

subsection \<open>Output of the encoder\<close>

lemma linear_apply_length:
  "linear_apply l x = Inr z \<Longrightarrow> length z = length (lin_weight l)"
  by (auto simp: linear_apply_def split: if_splits)

lemma fcn_distribution:
  assumes "fcn enc keep x = Inr row" and "lin_weight (enc_fc2 enc) \<noteq> []"
  shows "length row = length (lin_weight (enc_fc2 enc)) \<and> sum_list row = 1 \<and> (\<forall>p \<in> set row. 0 \<le> p)"
proof -
  from assms(1) obtain h z where
    z: "linear_apply (enc_fc2 enc) (dropout keep (relu h)) = Inr z" and row: "row = softmax z"
    by (auto simp: fcn_def split: sum.splits)
  from linear_apply_length [OF z] assms(2) have "z \<noteq> []" by auto
  then have "sum_list row = 1" unfolding row by (rule softmax_sum)
  moreover have "length row = length (lin_weight (enc_fc2 enc))"
    using linear_apply_length [OF z] by (simp add: row softmax_length)
  moreover have "\<forall>p \<in> set row. 0 \<le> p" unfolding row using softmax_nonneg by blast
  ultimately show ?thesis by blast
qed

lemma init_num_classes:
  "PatternSeriesEncoder_init input_size num_classes enc \<Longrightarrow> 0 < num_classes \<Longrightarrow>
     lin_weight (enc_fc2 enc) \<noteq> [] \<and> length (lin_weight (enc_fc2 enc)) = num_classes"
  by (auto simp: PatternSeriesEncoder_init_def linear_shape_def)

text \<open>
  C10. With at least one class (the last linear layer has an output unit),
  whenever \<open>forward\<close> returns it returns one row per input sample, and every row has one
  entry per class, is elementwise non-negative and sums to 1: the output is already a
  probability distribution, and softmax applied to it again gives a vector that sums to 1
  as well.
\<close>

theorem forward_rows_are_distributions:
  assumes "PatternSeriesEncoder_forward enc keeps i x = Inr y" and "lin_weight (enc_fc2 enc) \<noteq> []"
  shows "length y = length x
     \<and> (\<forall>row \<in> set y. length row = length (lin_weight (enc_fc2 enc)) \<and> sum_list row = 1
            \<and> (\<forall>p \<in> set row. 0 \<le> p) \<and> sum_list (softmax row) = 1)"
  using assms(1)
proof (induction x arbitrary: i y)
  case Nil
  then show ?case by simp
next
  case (Cons s rest)
  from Cons.prems obtain row rows where
    r: "forward_sample enc (keeps i) s = Inr row"
    and rs: "PatternSeriesEncoder_forward enc keeps (Suc i) rest = Inr rows"
    and y: "y = row # rows"
    by (auto split: sum.splits)
  from r have "fcn enc (keeps i) (concat (cnn enc [concat s])) = Inr row"
    by (simp add: forward_sample_def)
  from fcn_distribution [OF this assms(2)] have
    p: "length row = length (lin_weight (enc_fc2 enc))" "sum_list row = 1" "\<forall>p \<in> set row. 0 \<le> p"
    by blast+
  from p(1) assms(2) have "row \<noteq> []" by auto
  then have "sum_list (softmax row) = 1" by (rule softmax_sum)
  with p Cons.IH [OF rs] show ?case unfolding y by simp
qed

lemma ex_forward:
  "PatternSeriesEncoder_forward ex_encoder (\<lambda>i. None) 0 [[[1], [2], [3], [4]]] = Inr [[1/2, 1/2]]"
  by (simp add: forward_sample_def cnn_def conv1d_apply_def ex_encoder_def dot_def relu_def upt_4
        upt_rec [of 0 2] upt_rec [of 1 2] fcn_def linear_apply_def dropout_def softmax_def)

theorem forward_rows_are_distributions_witness:
  "PatternSeriesEncoder_forward ex_encoder (\<lambda>i. None) 0 [[[1], [2], [3], [4]]] = Inr [[1/2, 1/2]]
   \<and> lin_weight (enc_fc2 ex_encoder) \<noteq> []
   \<and> sum_list [1/2, 1/2 :: real] = 1 \<and> sum_list (softmax [1/2, 1/2]) = 1"
proof -
  have n: "lin_weight (enc_fc2 ex_encoder) \<noteq> []" by (simp add: ex_encoder_def)
  from forward_rows_are_distributions [OF ex_forward n] ex_forward n show ?thesis by simp
qed

end
